theory Spec2Isabelle
  imports Complex_Main "HOL-Library.Sublist"
begin

section \<open>JavaScript values as the worker sees them\<close>

text \<open>
  A JavaScript number is a finite double, \<open>NaN\<close> or an infinity. Every finite double is a
  rational; the worker only compares numbers and takes a minimum, which is exact.
\<close>

datatype jsnum = Fin rat | NaN | PosInf | NegInf

text \<open>
  The result of \<open>JSON.parse\<close>. An object is the list of its own properties in enumeration
  order, each key once. A string is a list of bytes (the UTF-8 text).
\<close>

datatype json =
    JNull
  | JBool bool
  | JNum jsnum
  | JStr string
  | JArr "json list"
  | JObj "(string \<times> json) list"

text \<open>A JavaScript value that may be \<open>undefined\<close>: \<open>None\<close> is \<open>undefined\<close>.\<close>

type_synonym jsval = "json option"

text \<open>
  A thrown \<open>Error\<close> instance (\<open>TypeError\<close>, \<open>ReferenceError\<close> and \<open>SyntaxError\<close> are
  instances too); the worker only ever reads its \<open>message\<close>.
\<close>

datatype js_error = Error (message: string)

text \<open>Truthiness, as \<open>!x\<close>, \<open>x || y\<close> and \<open>if (x)\<close> test it.\<close>

fun truthy :: "jsval \<Rightarrow> bool" where
  "truthy None = False"
| "truthy (Some JNull) = False"
| "truthy (Some (JBool b)) = b"
| "truthy (Some (JNum n)) = (n \<noteq> Fin 0 \<and> n \<noteq> NaN)"
| "truthy (Some (JStr s)) = (s \<noteq> [])"
| "truthy (Some (JArr vs)) = True"
| "truthy (Some (JObj kvs)) = True"

text \<open>\<open>a || b\<close>.\<close>

definition js_or :: "jsval \<Rightarrow> jsval \<Rightarrow> jsval" where
  "js_or a b = (if truthy a then a else b)"

text \<open>\<open>a || d\<close> where \<open>d\<close> is a literal, so that the result is never \<open>undefined\<close>.\<close>

definition or_default :: "jsval \<Rightarrow> json \<Rightarrow> json" where
  "or_default a d = (case a of None \<Rightarrow> d | Some v \<Rightarrow> if truthy (Some v) then v else d)"

text \<open>
  \<open>v.k\<close> for a value \<open>v\<close> that is not \<open>null\<close>, and a key \<open>k\<close> that no prototype defines
  (all the keys the worker reads are such): an own property of an object, \<open>undefined\<close> on
  anything else. Reading a property of \<open>null\<close> throws; every place where the worker can do
  that is a branch of its own in the model.
\<close>

fun member :: "json \<Rightarrow> string \<Rightarrow> jsval" where
  "member (JObj kvs) k = map_of kvs k"
| "member v k = None"

text \<open>\<open>v?.k\<close>: \<open>undefined\<close> when \<open>v\<close> is \<open>undefined\<close> or \<open>null\<close>.\<close>

fun opt_member :: "jsval \<Rightarrow> string \<Rightarrow> jsval" where
  "opt_member None k = None"
| "opt_member (Some v) k = member v k"

text \<open>The message of the \<open>TypeError\<close> V8 throws on \<open>null.k\<close>.\<close>

definition null_read :: "string \<Rightarrow> js_error" where
  "null_read k = Error (''Cannot read properties of null (reading '' @ [CHR 0x27] @ k @ [CHR 0x27] @ '')'')"

subsection \<open>The hosting runtime\<close>

text \<open>
  What the runtime computes and the worker's source does not: the string and number
  conversions of arrays, objects and strings, the digits of a number that is not a safe
  integer, and the global \<open>process.env\<close> (\<open>None\<close> when the runtime defines no \<open>process\<close>).
  A conversion of an object can throw (\<open>Inl\<close>).
\<close>

record runtime =
  ToString :: "json \<Rightarrow> js_error + string"
  ToNumber :: "json \<Rightarrow> js_error + jsnum"
  Number_toString :: "rat \<Rightarrow> string"
  process_env :: "(string \<Rightarrow> string option) option"

fun show_nat :: "nat \<Rightarrow> string" where
  "show_nat n =
     (if n < 10 then [''0123456789'' ! n] else show_nat (n div 10) @ [''0123456789'' ! (n mod 10)])"

declare show_nat.simps [simp del]

text \<open>\<open>n.toString()\<close> of a number: the decimal digits of a safe integer are written out.\<close>

definition number_toString :: "runtime \<Rightarrow> jsnum \<Rightarrow> string" where
  "number_toString rt n =
     (case n of
        NaN \<Rightarrow> ''NaN''
      | PosInf \<Rightarrow> ''Infinity''
      | NegInf \<Rightarrow> ''-Infinity''
      | Fin r \<Rightarrow>
          if r = of_int \<lfloor>r\<rfloor> \<and> \<bar>r\<bar> \<le> 9007199254740991
          then (if r < 0 then ''-'' @ show_nat (nat (- \<lfloor>r\<rfloor>)) else show_nat (nat \<lfloor>r\<rfloor>))
          else Number_toString rt r)"

text \<open>
  The conversion to a string of a template literal, of a \<open>URLSearchParams\<close> value and of
  \<open>String(v)\<close>.
\<close>

definition js_String :: "runtime \<Rightarrow> jsval \<Rightarrow> js_error + string" where
  "js_String rt v =
     (case v of
        None \<Rightarrow> Inr ''undefined''
      | Some JNull \<Rightarrow> Inr ''null''
      | Some (JBool b) \<Rightarrow> Inr (if b then ''true'' else ''false'')
      | Some (JNum n) \<Rightarrow> Inr (number_toString rt n)
      | Some (JStr s) \<Rightarrow> Inr s
      | Some (JArr vs) \<Rightarrow> ToString rt (JArr vs)
      | Some (JObj kvs) \<Rightarrow> ToString rt (JObj kvs))"

text \<open>
  \<open>limit.toString()\<close> for a \<open>limit\<close> that is not \<open>undefined\<close>: \<open>null\<close> has no properties; an
  object has \<open>Object.prototype.toString\<close>, unless it has a property \<open>toString\<close> of its own,
  which is a JSON value and cannot be called; a number, a string, a boolean and an array
  convert as \<open>String(v)\<close> does.
\<close>

definition method_toString :: "runtime \<Rightarrow> json \<Rightarrow> js_error + string" where
  "method_toString rt v =
     (case v of
        JNull \<Rightarrow> Inl (null_read ''toString'')
      | JObj kvs \<Rightarrow>
          if map_of kvs ''toString'' = None then Inr ''[object Object]''
          else Inl (Error ''limit.toString is not a function'')
      | _ \<Rightarrow> js_String rt (Some v))"

text \<open>The conversion to a number of \<open>Math.min\<close>'s arguments.\<close>

definition js_Number :: "runtime \<Rightarrow> json \<Rightarrow> js_error + jsnum" where
  "js_Number rt v =
     (case v of
        JNull \<Rightarrow> Inr (Fin 0)
      | JBool b \<Rightarrow> Inr (Fin (if b then 1 else 0))
      | JNum n \<Rightarrow> Inr n
      | _ \<Rightarrow> ToNumber rt v)"

fun js_min :: "jsnum \<Rightarrow> jsnum \<Rightarrow> jsnum" where
  "js_min NaN y = NaN"
| "js_min x NaN = NaN"
| "js_min NegInf y = NegInf"
| "js_min x NegInf = NegInf"
| "js_min PosInf y = y"
| "js_min x PosInf = x"
| "js_min (Fin a) (Fin b) = Fin (min a b)"

text \<open>\<open>Math.min(v, m)\<close> for a number literal \<open>m\<close>.\<close>

definition Math_min :: "runtime \<Rightarrow> json \<Rightarrow> jsnum \<Rightarrow> js_error + jsnum" where
  "Math_min rt v m = (case js_Number rt v of Inl e \<Rightarrow> Inl e | Inr n \<Rightarrow> Inr (js_min n m))"

subsection \<open>\<open>JSON.stringify\<close>\<close>

definition hex_digit :: "nat \<Rightarrow> char" where
  "hex_digit n = ''0123456789abcdef'' ! n"

definition backslash :: char where
  "backslash = CHR 0x5C"

definition escape_char :: "char \<Rightarrow> string" where
  "escape_char c =
     (if c = CHR 0x22 then [backslash, CHR 0x22]
      else if c = backslash then [backslash, backslash]
      else if c = CHR 0x08 then [backslash, CHR ''b'']
      else if c = CHR 0x0C then [backslash, CHR ''f'']
      else if c = CHR 0x0A then [backslash, CHR ''n'']
      else if c = CHR 0x0D then [backslash, CHR ''r'']
      else if c = CHR 0x09 then [backslash, CHR ''t'']
      else if (of_char c :: nat) < 32
        then [backslash, CHR ''u'', CHR ''0'', CHR ''0'',
              hex_digit (of_char c div 16), hex_digit (of_char c mod 16)]
      else [c])"

definition quote :: "string \<Rightarrow> string" where
  "quote s = [CHR 0x22] @ concat (map escape_char s) @ [CHR 0x22]"

fun join :: "string \<Rightarrow> string list \<Rightarrow> string" where
  "join sep [] = []"
| "join sep [x] = x"
| "join sep (x # y # ys) = x @ sep @ join sep (y # ys)"

fun JSON_stringify :: "runtime \<Rightarrow> json \<Rightarrow> string" where
  "JSON_stringify rt JNull = ''null''"
| "JSON_stringify rt (JBool b) = (if b then ''true'' else ''false'')"
| "JSON_stringify rt (JNum n) = (case n of Fin r \<Rightarrow> number_toString rt n | _ \<Rightarrow> ''null'')"
| "JSON_stringify rt (JStr s) = quote s"
| "JSON_stringify rt (JArr vs) = ''['' @ join '','' (map (JSON_stringify rt) vs) @ '']''"
| "JSON_stringify rt (JObj kvs) =
     ''{'' @ join '','' (map (\<lambda>(k, v). quote k @ '':'' @ JSON_stringify rt v) kvs) @ ''}''"

text \<open>
  An object literal about to be stringified: \<open>JSON.stringify\<close> leaves out a property whose
  value is \<open>undefined\<close>.
\<close>

definition js_object :: "(string \<times> jsval) list \<Rightarrow> json" where
  "js_object kvs = JObj (List.map_filter (\<lambda>(k, v). map_option (Pair k) v) kvs)"

section \<open>The Slack client\<close>

text \<open>
  One call of the backend, as \<open>fetch\<close> sends it. \<open>GET url query headers\<close>: the entries of
  the \<open>URLSearchParams\<close> that the URL is built from, before their percent-encoding.
  \<open>POST url headers body\<close>: the body is the text \<open>JSON.stringify\<close> produced.
\<close>

datatype api_call =
    GET string "(string \<times> string) list" "(string \<times> string) list"
  | POST string "(string \<times> string) list" string

text \<open>
  The backend answers a call given the calls this request made before it: \<open>Inr\<close> the
  value \<open>response.json()\<close> decodes, \<open>Inl\<close> the error that \<open>fetch\<close> or \<open>response.json()\<close>
  throws. A client method takes the calls made so far and returns its result, or the error
  it throws, with the calls made since added at the end.
\<close>

type_synonym backend = "api_call list \<Rightarrow> api_call \<Rightarrow> js_error + json"

type_synonym 'a outcome = "(js_error + 'a) \<times> api_call list"

definition slack_fetch :: "backend \<Rightarrow> api_call \<Rightarrow> api_call list \<Rightarrow> json outcome" where
  "slack_fetch be c hist = (be hist c, hist @ [c])"

text \<open>The worker's \<open>env\<close>: its variable bindings, in the order \<open>Object.keys\<close> lists them.\<close>

type_synonym environment = "(string \<times> string) list"

record SlackClient =
  botHeaders :: "(string \<times> string) list"

definition new_SlackClient :: "string \<Rightarrow> SlackClient" where
  "new_SlackClient botToken =
     \<lparr>botHeaders = [(''Authorization'', ''Bearer '' @ botToken),
                    (''Content-Type'', ''application/json'')]\<rparr>"

text \<open>\<open>s.split(sep)\<close> for a one-character separator.\<close>

fun split :: "char \<Rightarrow> string \<Rightarrow> string list" where
  "split sep [] = [[]]"
| "split sep (c # cs) =
     (if c = sep then [] # split sep cs
      else (case split sep cs of [] \<Rightarrow> [[c]] | x # xs \<Rightarrow> (c # x) # xs))"

text \<open>
  The code points that \<open>s.trim()\<close> strips (white space and line terminators), each as its
  UTF-8 bytes: U+0009 to U+000D, U+0020, U+00A0, U+1680, U+2000 to U+200A, U+2028, U+2029,
  U+202F, U+205F, U+3000 and U+FEFF.
\<close>

definition white_space :: "string list" where
  "white_space =
     [[CHR 0x09], [CHR 0x0A], [CHR 0x0B], [CHR 0x0C], [CHR 0x0D], [CHR 0x20],
      [CHR 0xC2, CHR 0xA0],
      [CHR 0xE1, CHR 0x9A, CHR 0x80],
      [CHR 0xE2, CHR 0x80, CHR 0x80], [CHR 0xE2, CHR 0x80, CHR 0x81],
      [CHR 0xE2, CHR 0x80, CHR 0x82], [CHR 0xE2, CHR 0x80, CHR 0x83],
      [CHR 0xE2, CHR 0x80, CHR 0x84], [CHR 0xE2, CHR 0x80, CHR 0x85],
      [CHR 0xE2, CHR 0x80, CHR 0x86], [CHR 0xE2, CHR 0x80, CHR 0x87],
      [CHR 0xE2, CHR 0x80, CHR 0x88], [CHR 0xE2, CHR 0x80, CHR 0x89],
      [CHR 0xE2, CHR 0x80, CHR 0x8A],
      [CHR 0xE2, CHR 0x80, CHR 0xA8], [CHR 0xE2, CHR 0x80, CHR 0xA9],
      [CHR 0xE2, CHR 0x80, CHR 0xAF],
      [CHR 0xE2, CHR 0x81, CHR 0x9F],
      [CHR 0xE3, CHR 0x80, CHR 0x80],
      [CHR 0xEF, CHR 0xBB, CHR 0xBF]]"

text \<open>Dropping, from the front of \<open>s\<close>, every occurrence of one of the byte sequences \<open>ws\<close>.\<close>

function strip_leading :: "string list \<Rightarrow> string \<Rightarrow> string" where
  "strip_leading ws s =
     (case List.find (\<lambda>w. prefix w s) ws of
        None \<Rightarrow> s
      | Some w \<Rightarrow> if w = [] then s else strip_leading ws (drop (length w) s))"
  by pat_completeness auto
termination
proof (relation "measure (\<lambda>(ws, s). length s)")
  show "wf (measure (\<lambda>(ws, s). length s))" by simp
next
  fix ws :: "string list" and s w :: string
  assume "List.find (\<lambda>w. prefix w s) ws = Some w" "w \<noteq> []"
  then have "prefix w s" "w \<noteq> []" by (auto simp: find_Some_iff)
  then have "s \<noteq> []" by auto
  with \<open>w \<noteq> []\<close> show "((ws, drop (length w) s), (ws, s)) \<in> measure (\<lambda>(ws, s). length s)"
    by simp
qed

declare strip_leading.simps [simp del]

text \<open>\<open>s.trim()\<close>: the white space is stripped from the front and, read backwards, from the end.\<close>

definition trim :: "string \<Rightarrow> string" where
  "trim s = rev (strip_leading (map rev white_space) (rev (strip_leading white_space s)))"

text \<open>
  The loop of \<open>getChannels\<close> over the pre-defined channel identifiers: one
  \<open>conversations.info\<close> call each, the channel kept when
  \<open>data.ok && data.channel && !data.channel.is_archived\<close>.
\<close>

fun channel_lookups ::
  "backend \<Rightarrow> SlackClient \<Rightarrow> string list \<Rightarrow> json list \<Rightarrow> api_call list \<Rightarrow> (json list) outcome" where
  "channel_lookups be this [] channels hist = (Inr channels, hist)"
| "channel_lookups be this (channelId # rest) channels hist =
     (case slack_fetch be
             (GET ''https://slack.com/api/conversations.info'' [(''channel'', channelId)]
                  (botHeaders this)) hist of
        (Inl e, hist') \<Rightarrow> (Inl e, hist')
      | (Inr JNull, hist') \<Rightarrow> (Inl (null_read ''ok''), hist')
      | (Inr data, hist') \<Rightarrow>
          (case member data ''channel'' of
             None \<Rightarrow> channel_lookups be this rest channels hist'
           | Some channel \<Rightarrow>
               if truthy (member data ''ok'') \<and> truthy (Some channel)
                  \<and> \<not> truthy (member channel ''is_archived'')
               then channel_lookups be this rest (channels @ [channel]) hist'
               else channel_lookups be this rest channels hist'))"

text \<open>
  \<open>getChannels(limit = 100, cursor?, env?)\<close>. Without pre-defined channel identifiers in
  \<open>env\<close> (or without \<open>env\<close>) it is one \<open>conversations.list\<close> call.
\<close>

definition getChannels ::
  "runtime \<Rightarrow> backend \<Rightarrow> SlackClient \<Rightarrow> jsval \<Rightarrow> jsval \<Rightarrow> environment option \<Rightarrow>
   api_call list \<Rightarrow> json outcome" where
  "getChannels rt be this limit cursor env hist =
     (let predefinedChannelIds =
            (case env of None \<Rightarrow> [] | Some e \<Rightarrow>
               (case map_of e ''SLACK_CHANNEL_IDS'' of None \<Rightarrow> [] | Some s \<Rightarrow> s))
      in
      if predefinedChannelIds = [] then
        (case Math_min rt (case limit of None \<Rightarrow> JNum (Fin 100) | Some l \<Rightarrow> l) (Fin 200) of
           Inl e \<Rightarrow> (Inl e, hist)
         | Inr m \<Rightarrow>
            (let params =
                   [(''types'', ''public_channel''),
                    (''exclude_archived'', ''true''),
                    (''limit'', number_toString rt m),
                    (''team_id'',
                       (case env of None \<Rightarrow> [] | Some e \<Rightarrow>
                          (case map_of e ''SLACK_TEAM_ID'' of None \<Rightarrow> [] | Some s \<Rightarrow> s)))]
             in
             if truthy cursor then
               (case js_String rt cursor of
                  Inl e \<Rightarrow> (Inl e, hist)
                | Inr c \<Rightarrow>
                    slack_fetch be
                      (GET ''https://slack.com/api/conversations.list''
                           (params @ [(''cursor'', c)]) (botHeaders this)) hist)
             else
               slack_fetch be
                 (GET ''https://slack.com/api/conversations.list'' params (botHeaders this))
                 hist))
      else
        (case channel_lookups be this (map trim (split CHR '','' predefinedChannelIds)) [] hist of
           (Inl e, hist') \<Rightarrow> (Inl e, hist')
         | (Inr channels, hist') \<Rightarrow>
             (Inr (JObj [(''ok'', JBool True),
                         (''channels'', JArr channels),
                         (''response_metadata'', JObj [(''next_cursor'', JStr [])])]),
              hist')))"

definition postMessage ::
  "runtime \<Rightarrow> backend \<Rightarrow> SlackClient \<Rightarrow> jsval \<Rightarrow> jsval \<Rightarrow> api_call list \<Rightarrow> json outcome" where
  "postMessage rt be this channel_id text hist =
     slack_fetch be
       (POST ''https://slack.com/api/chat.postMessage'' (botHeaders this)
          (JSON_stringify rt (js_object [(''channel'', channel_id), (''text'', text)])))
       hist"

definition postReply ::
  "runtime \<Rightarrow> backend \<Rightarrow> SlackClient \<Rightarrow> jsval \<Rightarrow> jsval \<Rightarrow> jsval \<Rightarrow> api_call list \<Rightarrow>
   json outcome" where
  "postReply rt be this channel_id thread_ts text hist =
     slack_fetch be
       (POST ''https://slack.com/api/chat.postMessage'' (botHeaders this)
          (JSON_stringify rt
             (js_object [(''channel'', channel_id), (''thread_ts'', thread_ts), (''text'', text)])))
       hist"

definition addReaction ::
  "runtime \<Rightarrow> backend \<Rightarrow> SlackClient \<Rightarrow> jsval \<Rightarrow> jsval \<Rightarrow> jsval \<Rightarrow> api_call list \<Rightarrow>
   json outcome" where
  "addReaction rt be this channel_id timestamp reaction hist =
     slack_fetch be
       (POST ''https://slack.com/api/reactions.add'' (botHeaders this)
          (JSON_stringify rt
             (js_object [(''channel'', channel_id), (''timestamp'', timestamp), (''name'', reaction)])))
       hist"

text \<open>\<open>getChannelHistory(channel_id, limit = 10)\<close>: \<open>limit.toString()\<close> is not clamped.\<close>

definition getChannelHistory ::
  "runtime \<Rightarrow> backend \<Rightarrow> SlackClient \<Rightarrow> jsval \<Rightarrow> jsval \<Rightarrow> api_call list \<Rightarrow> json outcome" where
  "getChannelHistory rt be this channel_id limit hist =
     (case method_toString rt (case limit of None \<Rightarrow> JNum (Fin 10) | Some l \<Rightarrow> l) of
        Inl e \<Rightarrow> (Inl e, hist)
      | Inr l \<Rightarrow>
         (case js_String rt channel_id of
            Inl e \<Rightarrow> (Inl e, hist)
          | Inr c \<Rightarrow>
              slack_fetch be
                (GET ''https://slack.com/api/conversations.history''
                     [(''channel'', c), (''limit'', l)] (botHeaders this)) hist))"

definition getThreadReplies ::
  "runtime \<Rightarrow> backend \<Rightarrow> SlackClient \<Rightarrow> jsval \<Rightarrow> jsval \<Rightarrow> api_call list \<Rightarrow> json outcome" where
  "getThreadReplies rt be this channel_id thread_ts hist =
     (case js_String rt channel_id of
        Inl e \<Rightarrow> (Inl e, hist)
      | Inr c \<Rightarrow>
         (case js_String rt thread_ts of
            Inl e \<Rightarrow> (Inl e, hist)
          | Inr t \<Rightarrow>
              slack_fetch be
                (GET ''https://slack.com/api/conversations.replies''
                     [(''channel'', c), (''ts'', t)] (botHeaders this)) hist))"

text \<open>
  \<open>getUsers(limit = 100, cursor?)\<close> reads the team from \<open>process.env\<close>, not from the
  worker's \<open>env\<close>: a \<open>ReferenceError\<close> where the runtime defines no \<open>process\<close>, and the
  text \<open>undefined\<close> where the variable is not set.
\<close>

definition getUsers ::
  "runtime \<Rightarrow> backend \<Rightarrow> SlackClient \<Rightarrow> jsval \<Rightarrow> jsval \<Rightarrow> api_call list \<Rightarrow> json outcome" where
  "getUsers rt be this limit cursor hist =
     (case Math_min rt (case limit of None \<Rightarrow> JNum (Fin 100) | Some l \<Rightarrow> l) (Fin 200) of
        Inl e \<Rightarrow> (Inl e, hist)
      | Inr m \<Rightarrow>
         (case process_env rt of
            None \<Rightarrow> (Inl (Error ''process is not defined''), hist)
          | Some penv \<Rightarrow>
             (let params =
                    [(''limit'', number_toString rt m),
                     (''team_id'',
                        (case penv ''SLACK_TEAM_ID'' of None \<Rightarrow> ''undefined'' | Some s \<Rightarrow> s))]
              in
              if truthy cursor then
                (case js_String rt cursor of
                   Inl e \<Rightarrow> (Inl e, hist)
                 | Inr c \<Rightarrow>
                     slack_fetch be
                       (GET ''https://slack.com/api/users.list''
                            (params @ [(''cursor'', c)]) (botHeaders this)) hist)
              else
                slack_fetch be
                  (GET ''https://slack.com/api/users.list'' params (botHeaders this)) hist)))"

definition getUserProfile ::
  "runtime \<Rightarrow> backend \<Rightarrow> SlackClient \<Rightarrow> jsval \<Rightarrow> api_call list \<Rightarrow> json outcome" where
  "getUserProfile rt be this user_id hist =
     (case js_String rt user_id of
        Inl e \<Rightarrow> (Inl e, hist)
      | Inr u \<Rightarrow>
          slack_fetch be
            (GET ''https://slack.com/api/users.profile.get''
                 [(''user'', u), (''include_labels'', ''true'')] (botHeaders this)) hist)"

section \<open>The tool registry\<close>

definition listChannelsTool :: json where
  "listChannelsTool = JObj
     [(''name'', JStr ''slack_list_channels''),
      (''description'', JStr ''List public or pre-defined channels in the workspace with pagination''),
      (''inputSchema'', JObj
         [(''type'', JStr ''object''),
          (''properties'', JObj
             [(''limit'', JObj
                 [(''type'', JStr ''number''),
                  (''description'', JStr ''Maximum number of channels to return (default 100, max 200)''),
                  (''default'', JNum (Fin 100))]),
              (''cursor'', JObj
                 [(''type'', JStr ''string''),
                  (''description'', JStr ''Pagination cursor for next page of results'')])])])]"

definition postMessageTool :: json where
  "postMessageTool = JObj
     [(''name'', JStr ''slack_post_message''),
      (''description'', JStr ''Post a new message to a Slack channel''),
      (''inputSchema'', JObj
         [(''type'', JStr ''object''),
          (''properties'', JObj
             [(''channel_id'', JObj
                 [(''type'', JStr ''string''),
                  (''description'', JStr ''The ID of the channel to post to'')]),
              (''text'', JObj
                 [(''type'', JStr ''string''),
                  (''description'', JStr ''The message text to post'')])]),
          (''required'', JArr [JStr ''channel_id'', JStr ''text''])])]"

definition replyToThreadTool :: json where
  "replyToThreadTool = JObj
     [(''name'', JStr ''slack_reply_to_thread''),
      (''description'', JStr ''Reply to a specific message thread in Slack''),
      (''inputSchema'', JObj
         [(''type'', JStr ''object''),
          (''properties'', JObj
             [(''channel_id'', JObj
                 [(''type'', JStr ''string''),
                  (''description'', JStr ''The ID of the channel containing the thread'')]),
              (''thread_ts'', JObj
                 [(''type'', JStr ''string''),
                  (''description'', JStr ''The timestamp of the parent message in the format '1234567890.123456'. Timestamps in the format without the period can be converted by adding the period such that 6 numbers come after it.'')]),
              (''text'', JObj
                 [(''type'', JStr ''string''),
                  (''description'', JStr ''The reply text'')])]),
          (''required'', JArr [JStr ''channel_id'', JStr ''thread_ts'', JStr ''text''])])]"

definition addReactionTool :: json where
  "addReactionTool = JObj
     [(''name'', JStr ''slack_add_reaction''),
      (''description'', JStr ''Add a reaction emoji to a message''),
      (''inputSchema'', JObj
         [(''type'', JStr ''object''),
          (''properties'', JObj
             [(''channel_id'', JObj
                 [(''type'', JStr ''string''),
                  (''description'', JStr ''The ID of the channel containing the message'')]),
              (''timestamp'', JObj
                 [(''type'', JStr ''string''),
                  (''description'', JStr ''The timestamp of the message to react to'')]),
              (''reaction'', JObj
                 [(''type'', JStr ''string''),
                  (''description'', JStr ''The name of the emoji reaction (without ::)'')])]),
          (''required'', JArr [JStr ''channel_id'', JStr ''timestamp'', JStr ''reaction''])])]"

definition getChannelHistoryTool :: json where
  "getChannelHistoryTool = JObj
     [(''name'', JStr ''slack_get_channel_history''),
      (''description'', JStr ''Get recent messages from a channel''),
      (''inputSchema'', JObj
         [(''type'', JStr ''object''),
          (''properties'', JObj
             [(''channel_id'', JObj
                 [(''type'', JStr ''string''),
                  (''description'', JStr ''The ID of the channel'')]),
              (''limit'', JObj
                 [(''type'', JStr ''number''),
                  (''description'', JStr ''Number of messages to retrieve (default 10)''),
                  (''default'', JNum (Fin 10))])]),
          (''required'', JArr [JStr ''channel_id''])])]"

definition getThreadRepliesTool :: json where
  "getThreadRepliesTool = JObj
     [(''name'', JStr ''slack_get_thread_replies''),
      (''description'', JStr ''Get all replies in a message thread''),
      (''inputSchema'', JObj
         [(''type'', JStr ''object''),
          (''properties'', JObj
             [(''channel_id'', JObj
                 [(''type'', JStr ''string''),
                  (''description'', JStr ''The ID of the channel containing the thread'')]),
              (''thread_ts'', JObj
                 [(''type'', JStr ''string''),
                  (''description'', JStr ''The timestamp of the parent message'')])]),
          (''required'', JArr [JStr ''channel_id'', JStr ''thread_ts''])])]"

definition getUsersTool :: json where
  "getUsersTool = JObj
     [(''name'', JStr ''slack_get_users''),
      (''description'', JStr ''Get a list of all users in the workspace with their basic profile information''),
      (''inputSchema'', JObj
         [(''type'', JStr ''object''),
          (''properties'', JObj
             [(''cursor'', JObj
                 [(''type'', JStr ''string''),
                  (''description'', JStr ''Pagination cursor for next page of results'')]),
              (''limit'', JObj
                 [(''type'', JStr ''number''),
                  (''description'', JStr ''Maximum number of users to return (default 100, max 200)''),
                  (''default'', JNum (Fin 100))])])])]"

definition getUserProfileTool :: json where
  "getUserProfileTool = JObj
     [(''name'', JStr ''slack_get_user_profile''),
      (''description'', JStr ''Get detailed profile information for a specific user''),
      (''inputSchema'', JObj
         [(''type'', JStr ''object''),
          (''properties'', JObj
             [(''user_id'', JObj
                 [(''type'', JStr ''string''),
                  (''description'', JStr ''The ID of the user'')])]),
          (''required'', JArr [JStr ''user_id''])])]"

text \<open>The list both \<open>ListTools\<close> handlers return.\<close>

definition tools :: "json list" where
  "tools =
     [listChannelsTool, postMessageTool, replyToThreadTool, addReactionTool,
      getChannelHistoryTool, getThreadRepliesTool, getUsersTool, getUserProfileTool]"



section \<open>Tool dispatch\<close>

text \<open>\<open>{content: [{type: "text", text: JSON.stringify(response)}]}\<close>.\<close>

definition toolResult :: "runtime \<Rightarrow> json \<Rightarrow> json" where
  "toolResult rt response =
     JObj [(''content'',
            JArr [JObj [(''type'', JStr ''text''),
                        (''text'', JStr (JSON_stringify rt response))]])]"

text \<open>
  The body of both \<open>catch\<close> blocks:
  \<open>{content: [{type: "text", text: JSON.stringify({error: error.message})}]}\<close>.
\<close>

definition toolError :: "runtime \<Rightarrow> js_error \<Rightarrow> json" where
  "toolError rt error = toolResult rt (JObj [(''error'', JStr (message error))])"

definition tool_content :: "runtime \<Rightarrow> json outcome \<Rightarrow> json outcome" where
  "tool_content rt r =
     (case r of (Inl e, hist) \<Rightarrow> (Inl e, hist)
              | (Inr response, hist) \<Rightarrow> (Inr (toolResult rt response), hist))"

text \<open>
  The \<open>switch\<close> on the tool name. The worker has it twice, in the handler it registers with
  the SDK server and in \<open>fetch\<close>; the two differ in one place: the first passes \<open>env\<close> to
  \<open>getChannels\<close>, the second passes nothing. \<open>genv\<close> is that argument.
\<close>

definition callTool ::
  "runtime \<Rightarrow> backend \<Rightarrow> SlackClient \<Rightarrow> environment option \<Rightarrow> json \<Rightarrow> json \<Rightarrow>
   api_call list \<Rightarrow> json outcome" where
  "callTool rt be slackClient genv name args hist =
     (if name = JStr ''slack_list_channels'' then
        tool_content rt
          (getChannels rt be slackClient (member args ''limit'') (member args ''cursor'') genv hist)
      else if name = JStr ''slack_post_message'' then
        (if \<not> truthy (member args ''channel_id'') \<or> \<not> truthy (member args ''text'')
         then (Inl (Error ''Missing required arguments: channel_id and text''), hist)
         else tool_content rt
                (postMessage rt be slackClient (member args ''channel_id'') (member args ''text'')
                   hist))
      else if name = JStr ''slack_reply_to_thread'' then
        (if \<not> truthy (member args ''channel_id'') \<or> \<not> truthy (member args ''thread_ts'')
            \<or> \<not> truthy (member args ''text'')
         then (Inl (Error ''Missing required arguments: channel_id, thread_ts, and text''), hist)
         else tool_content rt
                (postReply rt be slackClient (member args ''channel_id'')
                   (member args ''thread_ts'') (member args ''text'') hist))
      else if name = JStr ''slack_add_reaction'' then
        (if \<not> truthy (member args ''channel_id'') \<or> \<not> truthy (member args ''timestamp'')
            \<or> \<not> truthy (member args ''reaction'')
         then (Inl (Error ''Missing required arguments: channel_id, timestamp, and reaction''), hist)
         else tool_content rt
                (addReaction rt be slackClient (member args ''channel_id'')
                   (member args ''timestamp'') (member args ''reaction'') hist))
      else if name = JStr ''slack_get_channel_history'' then
        (if \<not> truthy (member args ''channel_id'')
         then (Inl (Error ''Missing required argument: channel_id''), hist)
         else tool_content rt
                (getChannelHistory rt be slackClient (member args ''channel_id'')
                   (member args ''limit'') hist))
      else if name = JStr ''slack_get_thread_replies'' then
        (if \<not> truthy (member args ''channel_id'') \<or> \<not> truthy (member args ''thread_ts'')
         then (Inl (Error ''Missing required arguments: channel_id and thread_ts''), hist)
         else tool_content rt
                (getThreadReplies rt be slackClient (member args ''channel_id'')
                   (member args ''thread_ts'') hist))
      else if name = JStr ''slack_get_users'' then
        tool_content rt
          (getUsers rt be slackClient (member args ''limit'') (member args ''cursor'') hist)
      else if name = JStr ''slack_get_user_profile'' then
        (if \<not> truthy (member args ''user_id'')
         then (Inl (Error ''Missing required argument: user_id''), hist)
         else tool_content rt (getUserProfile rt be slackClient (member args ''user_id'') hist))
      else
        (case js_String rt (Some name) of
           Inl e \<Rightarrow> (Inl e, hist)
         | Inr s \<Rightarrow> (Inl (Error (''Unknown tool: '' @ s)), hist)))"

text \<open>
  The \<open>try\<close> block of either handler: the guard on the arguments, then the switch.
\<close>

definition executeTool ::
  "runtime \<Rightarrow> backend \<Rightarrow> SlackClient \<Rightarrow> environment option \<Rightarrow> json \<Rightarrow> jsval \<Rightarrow>
   json outcome" where
  "executeTool rt be slackClient genv name arguments =
     (case arguments of
        None \<Rightarrow> (Inl (Error ''No arguments provided''), [])
      | Some args \<Rightarrow>
          if \<not> truthy (Some args) then (Inl (Error ''No arguments provided''), [])
          else callTool rt be slackClient genv name args [])"

text \<open>
  The handler registered for \<open>CallToolRequestSchema\<close>. The worker never connects the
  server object to a transport, so no request reaches this handler.
\<close>

definition sdkCallToolHandler ::
  "runtime \<Rightarrow> backend \<Rightarrow> SlackClient \<Rightarrow> environment \<Rightarrow> json \<Rightarrow> jsval \<Rightarrow>
   json \<times> api_call list" where
  "sdkCallToolHandler rt be slackClient env name arguments =
     (case executeTool rt be slackClient (Some env) name arguments of
        (Inr result, calls) \<Rightarrow> (result, calls)
      | (Inl error, calls) \<Rightarrow> (toolError rt error, calls))"

section \<open>The worker's \<open>fetch\<close>\<close>

text \<open>
  The incoming request: its transport method and \<open>JSON.parse(await request.text())\<close>,
  which is \<open>None\<close> when \<open>JSON.parse\<close> throws.
\<close>

record request =
  http_method :: string
  json_body :: "json option"

text \<open>
  A \<open>Response\<close>: \<open>body = Some v\<close> is the text \<open>JSON.stringify(v)\<close>, \<open>None\<close> is the \<open>null\<close>
  body.
\<close>

record response =
  status :: nat
  headers :: "(string \<times> string) list"
  body :: "json option"

text \<open>The text of the body, as it is sent.\<close>

definition wire_body :: "runtime \<Rightarrow> response \<Rightarrow> string option" where
  "wire_body rt r = map_option (JSON_stringify rt) (body r)"

definition json_headers :: "(string \<times> string) list" where
  "json_headers =
     [(''Content-Type'', ''application/json''),
      (''Access-Control-Allow-Origin'', ''*''),
      (''Access-Control-Allow-Methods'', ''POST, GET, OPTIONS''),
      (''Access-Control-Allow-Headers'', ''Content-Type'')]"

definition json_response :: "nat \<Rightarrow> json \<Rightarrow> response" where
  "json_response st v = \<lparr>status = st, headers = json_headers, body = Some v\<rparr>"

definition preflight_response :: response where
  "preflight_response =
     \<lparr>status = 200,
      headers = [(''Access-Control-Allow-Origin'', ''*''),
                 (''Access-Control-Allow-Methods'', ''POST, GET, OPTIONS''),
                 (''Access-Control-Allow-Headers'', ''Content-Type''),
                 (''Access-Control-Max-Age'', ''86400'')],
      body = None\<rparr>"

definition env_var :: "environment \<Rightarrow> string \<Rightarrow> jsval" where
  "env_var env k = map_option JStr (map_of env k)"

definition config_error_response :: "environment \<Rightarrow> response" where
  "config_error_response env =
     json_response 500
       (JObj [(''error'',
                 JStr ''Missing required environment variables: SLACK_BOT_TOKEN and SLACK_TEAM_ID''),
              (''debug'', JObj
                 [(''hasToken'', JBool (truthy (env_var env ''SLACK_BOT_TOKEN''))),
                  (''hasTeamId'', JBool (truthy (env_var env ''SLACK_TEAM_ID''))),
                  (''hasChannelIds'', JBool (truthy (env_var env ''SLACK_CHANNEL_IDS''))),
                  (''envKeys'', JArr (map (\<lambda>kv. JStr (fst kv)) env))])])"

definition invalid_json_response :: response where
  "invalid_json_response = json_response 400 (JObj [(''error'', JStr ''Invalid JSON in request'')])"

definition invalid_format_response :: response where
  "invalid_format_response = json_response 400 (JObj [(''error'', JStr ''Invalid request format'')])"

definition unsupported_response :: "json \<Rightarrow> response" where
  "unsupported_response requestBody =
     json_response 400
       (JObj [(''error'', JStr ''Unsupported request type or missing handler''),
              (''received'', requestBody)])"

text \<open>The four classification flags, for a \<open>requestBody\<close> that is not \<open>null\<close>.\<close>

definition isCallTool :: "json \<Rightarrow> bool" where
  "isCallTool requestBody =
     (member requestBody ''type'' = Some (JStr ''call_tool'')
      \<or> member requestBody ''method'' = Some (JStr ''tools/call''))"

definition isListTools :: "json \<Rightarrow> bool" where
  "isListTools requestBody =
     (member requestBody ''type'' = Some (JStr ''list_tools'')
      \<or> member requestBody ''method'' = Some (JStr ''tools/list'')
      \<or> member requestBody ''method'' = Some (JStr ''list''))"

definition isInitialize :: "json \<Rightarrow> bool" where
  "isInitialize requestBody = (member requestBody ''method'' = Some (JStr ''initialize''))"

text \<open>
  \<open>requestBody.method && requestBody.method.startsWith('notifications/')\<close>: a truthy
  \<open>method\<close> that is not a string has no \<open>startsWith\<close>, and calling it throws.
\<close>

definition isNotification :: "json \<Rightarrow> js_error + bool" where
  "isNotification requestBody =
     (case member requestBody ''method'' of
        Some (JStr m) \<Rightarrow> Inr (truthy (Some (JStr m)) \<and> prefix ''notifications/'' m)
      | v \<Rightarrow> if truthy v
              then Inl (Error ''requestBody.method.startsWith is not a function'')
              else Inr False)"

text \<open>The fields of the \<open>callToolRequest\<close> that \<open>fetch\<close> builds from the body.\<close>

definition callToolRequest_name :: "json \<Rightarrow> json" where
  "callToolRequest_name requestBody =
     or_default
       (js_or (opt_member (member requestBody ''params'') ''name'')
              (opt_member (member requestBody ''params'') ''tool''))
       (JStr [])"

definition callToolRequest_arguments :: "json \<Rightarrow> json" where
  "callToolRequest_arguments requestBody =
     or_default
       (js_or (opt_member (member requestBody ''params'') ''arguments'')
              (opt_member (member requestBody ''params'') ''parameters''))
       (JObj [])"

text \<open>The \<open>isCallTool\<close> branch: the manual dispatch, its envelope and its \<open>catch\<close>.\<close>

definition handleCallTool ::
  "runtime \<Rightarrow> backend \<Rightarrow> SlackClient \<Rightarrow> json \<Rightarrow> response \<times> api_call list" where
  "handleCallTool rt be slackClient requestBody =
     (case executeTool rt be slackClient None
             (callToolRequest_name requestBody)
             (Some (callToolRequest_arguments requestBody)) of
        (Inr result, calls) \<Rightarrow>
          (json_response 200
             (JObj [(''jsonrpc'', JStr ''2.0''),
                    (''id'', (case member requestBody ''id'' of
                                None \<Rightarrow> JNum (Fin 0) | Some i \<Rightarrow> i)),
                    (''result'', result)]),
           calls)
      | (Inl error, calls) \<Rightarrow> (json_response 200 (toolError rt error), calls))"

definition list_tools_response :: "json \<Rightarrow> response" where
  "list_tools_response requestBody =
     json_response 200
       (JObj [(''jsonrpc'', JStr ''2.0''),
              (''id'', or_default (member requestBody ''id'') (JNum (Fin 0))),
              (''result'', JObj [(''tools'', JArr tools)])])"

definition initialize_response :: "json \<Rightarrow> response" where
  "initialize_response requestBody =
     json_response 200
       (js_object
          [(''jsonrpc'', Some (JStr ''2.0'')),
           (''id'', member requestBody ''id''),
           (''result'', Some (JObj
              [(''protocolVersion'', JStr ''2024-11-05''),
               (''serverInfo'', JObj [(''name'', JStr ''slack-mcp-remote''),
                                      (''version'', JStr ''1.0.0'')]),
               (''capabilities'', JObj [(''tools'', JObj [])])]))])"

definition notification_response :: response where
  "notification_response =
     json_response 200 (JObj [(''jsonrpc'', JStr ''2.0''), (''result'', JNull)])"

text \<open>
  \<open>new SlackClient(env.SLACK_BOT_TOKEN)\<close>; the template literal of the constructor turns
  an \<open>undefined\<close> token into the text \<open>undefined\<close>.
\<close>

definition worker_SlackClient :: "environment \<Rightarrow> SlackClient" where
  "worker_SlackClient env =
     new_SlackClient
       (case map_of env ''SLACK_BOT_TOKEN'' of None \<Rightarrow> ''undefined'' | Some t \<Rightarrow> t)"

text \<open>
  \<open>fetch(request, env, ctx)\<close>: the response, and the calls of the backend made for it.
\<close>

definition fetch ::
  "runtime \<Rightarrow> backend \<Rightarrow> request \<Rightarrow> environment \<Rightarrow> response \<times> api_call list" where
  "fetch rt be request env =
     (let botToken = env_var env ''SLACK_BOT_TOKEN'';
          teamId = env_var env ''SLACK_TEAM_ID''
      in
      if \<not> truthy botToken \<or> \<not> truthy teamId then (config_error_response env, [])
      else
        (let slackClient = worker_SlackClient env
         in
         case json_body request of
           None \<Rightarrow> (invalid_json_response, [])
         | Some requestBody \<Rightarrow>
             if requestBody = JNull then (invalid_format_response, [])
             else
               (case isNotification requestBody of
                  Inl e \<Rightarrow> (invalid_format_response, [])
                | Inr isNotif \<Rightarrow>
                    if isCallTool requestBody then
                      handleCallTool rt be slackClient requestBody
                    else if isListTools requestBody then
                      (list_tools_response requestBody, [])
                    else if isInitialize requestBody then
                      (initialize_response requestBody, [])
                    else if isNotif then (notification_response, [])
                    else if http_method request = ''OPTIONS'' then (preflight_response, [])
                    else (unsupported_response requestBody, []))))"

section \<open>Sample inputs\<close>

text \<open>
  A runtime, a configured environment and two backends to evaluate the worker on: one
  backend answers every call with \<open>{"ok": true}\<close>, the other throws on every call.
\<close>

definition sample_runtime :: runtime where
  "sample_runtime =
     \<lparr>ToString = (\<lambda>v. Inr ''[object Object]''),
      ToNumber = (\<lambda>v. Inr NaN),
      Number_toString = (\<lambda>r. ''1.5''),
      process_env = Some (\<lambda>k. None)\<rparr>"

definition sample_env :: environment where
  "sample_env = [(''SLACK_BOT_TOKEN'', ''xoxb-1''), (''SLACK_TEAM_ID'', ''T1'')]"

definition sample_env_with_channels :: environment where
  "sample_env_with_channels =
     [(''SLACK_BOT_TOKEN'', ''xoxb-1''), (''SLACK_TEAM_ID'', ''T1''),
      (''SLACK_CHANNEL_IDS'', ''C1, C2'')]"

definition sample_backend :: backend where
  "sample_backend = (\<lambda>hist c. Inr (JObj [(''ok'', JBool True)]))"

definition failing_backend :: backend where
  "failing_backend = (\<lambda>hist c. Inl (Error ''fetch failed''))"

definition post :: "json \<Rightarrow> request" where
  "post v = \<lparr>http_method = ''POST'', json_body = Some v\<rparr>"

text \<open>The \<open>limit\<close> entry of the query a call sends, if it sends one.\<close>

definition sent_limit :: "api_call \<Rightarrow> string option" where
  "sent_limit c = (case c of GET url query hs \<Rightarrow> map_of query ''limit'' | POST url hs b \<Rightarrow> None)"

section \<open>How \<open>fetch\<close> branches\<close>

lemma sample_env_configured:
  "truthy (env_var sample_env ''SLACK_BOT_TOKEN'')" "truthy (env_var sample_env ''SLACK_TEAM_ID'')"
  by (simp_all add: sample_env_def env_var_def)

lemma fetch_classified:
  assumes "truthy (env_var env ''SLACK_BOT_TOKEN'')" "truthy (env_var env ''SLACK_TEAM_ID'')"
    and "json_body request = Some requestBody" "requestBody \<noteq> JNull"
    and "isNotification requestBody = Inr notif"
  shows "fetch rt be request env =
     (if isCallTool requestBody then
        handleCallTool rt be (worker_SlackClient env) requestBody
      else if isListTools requestBody then (list_tools_response requestBody, [])
      else if isInitialize requestBody then (initialize_response requestBody, [])
      else if notif then (notification_response, [])
      else if http_method request = ''OPTIONS'' then (preflight_response, [])
      else (unsupported_response requestBody, []))"
  using assms by (simp add: fetch_def)

lemma isNotification_cases:
  assumes "truthy (member requestBody ''method'') \<Longrightarrow>
           \<exists>m. member requestBody ''method'' = Some (JStr m)"
  shows "isNotification requestBody =
           Inr (\<exists>m. member requestBody ''method'' = Some (JStr m) \<and> prefix ''notifications/'' m)"
proof (cases "member requestBody ''method''")
  case None
  then show ?thesis by (simp add: isNotification_def)
next
  case (Some v)
  show ?thesis
  proof (cases "truthy (Some v)")
    case True
    with assms Some obtain m where "v = JStr m" by auto
    with Some True show ?thesis by (auto simp: isNotification_def)
  next
    case False
    with Some show ?thesis by (cases v) (auto simp: isNotification_def)
  qed
qed

lemma isCallTool_not_null: "isCallTool requestBody \<Longrightarrow> requestBody \<noteq> JNull"
  by (auto simp: isCallTool_def)

lemma fetch_call_tool:
  assumes "truthy (env_var env ''SLACK_BOT_TOKEN'')" "truthy (env_var env ''SLACK_TEAM_ID'')"
    and "json_body request = Some requestBody" "isCallTool requestBody"
    and "isNotification requestBody = Inr notif"
  shows "fetch rt be request env = handleCallTool rt be (worker_SlackClient env) requestBody"
  using fetch_classified[OF assms(1-3) isCallTool_not_null[OF assms(4)] assms(5)] assms(4)
  by simp

lemma handleCallTool_failure:
  assumes "executeTool rt be c None (callToolRequest_name requestBody)
             (Some (callToolRequest_arguments requestBody)) = (Inl error, calls)"
  shows "handleCallTool rt be c requestBody = (json_response 200 (toolError rt error), calls)"
  using assms by (simp add: handleCallTool_def)

lemma handleCallTool_success:
  assumes "executeTool rt be c None (callToolRequest_name requestBody)
             (Some (callToolRequest_arguments requestBody)) = (Inr result, calls)"
  shows "handleCallTool rt be c requestBody =
           (json_response 200
              (JObj [(''jsonrpc'', JStr ''2.0''),
                     (''id'', (case member requestBody ''id'' of
                                 None \<Rightarrow> JNum (Fin 0) | Some i \<Rightarrow> i)),
                     (''result'', result)]),
            calls)"
  using assms by (simp add: handleCallTool_def)

section \<open>Request classification\<close>

text \<open>
  The order of the branches. For a decoded body that is not \<open>null\<close> and whose \<open>method\<close> is
  absent, falsy or a string, line 608 does not throw, and \<open>fetch\<close> takes the first branch
  whose test holds.
\<close>

lemma classification_order:
  assumes "truthy (env_var env ''SLACK_BOT_TOKEN'')" "truthy (env_var env ''SLACK_TEAM_ID'')"
    and "json_body request = Some requestBody" "requestBody \<noteq> JNull"
    and "truthy (member requestBody ''method'') \<Longrightarrow>
         \<exists>m. member requestBody ''method'' = Some (JStr m)"
  shows "fetch rt be request env =
     (if member requestBody ''method'' = Some (JStr ''tools/call'')
         \<or> member requestBody ''type'' = Some (JStr ''call_tool'')
      then handleCallTool rt be (worker_SlackClient env) requestBody
      else if member requestBody ''method'' = Some (JStr ''tools/list'')
         \<or> member requestBody ''method'' = Some (JStr ''list'')
         \<or> member requestBody ''type'' = Some (JStr ''list_tools'')
      then (list_tools_response requestBody, [])
      else if member requestBody ''method'' = Some (JStr ''initialize'')
      then (initialize_response requestBody, [])
      else if (\<exists>m. member requestBody ''method'' = Some (JStr m) \<and> prefix ''notifications/'' m)
      then (notification_response, [])
      else if http_method request = ''OPTIONS'' then (preflight_response, [])
      else (unsupported_response requestBody, []))"
proof -
  note eq = fetch_classified[OF assms(1-4) isNotification_cases[OF assms(5)], of rt be]
  show ?thesis
    by (simp add: eq isCallTool_def isListTools_def isInitialize_def disj_commute
        disj_left_commute)
qed

text \<open>
  C2 fails on the code. A body with \<open>type\<close> \<open>call_tool\<close> is a tool call by the claim, whatever
  its \<open>method\<close>. The worker computes the notification flag first (line 608), calling
  \<open>startsWith\<close> on any truthy \<open>method\<close>: with \<open>method\<close> 5 that call throws, and the request is
  answered with status 400 and \<open>Invalid request format\<close>, without a tool call.
\<close>

theorem call_tool_with_numeric_method_is_rejected:
  "isCallTool (JObj [(''type'', JStr ''call_tool''), (''method'', JNum (Fin 5)),
                     (''params'', JObj [(''tool'', JStr ''slack_get_user_profile''),
                                        (''parameters'', JObj [(''user_id'', JStr ''U1'')])])])
   \<and> fetch sample_runtime sample_backend
       (post (JObj [(''type'', JStr ''call_tool''), (''method'', JNum (Fin 5)),
                    (''params'', JObj [(''tool'', JStr ''slack_get_user_profile''),
                                       (''parameters'', JObj [(''user_id'', JStr ''U1'')])])]))
       sample_env
     = (\<lparr>status = 400, headers = json_headers,
         body = Some (JObj [(''error'', JStr ''Invalid request format'')])\<rparr>, [])
   \<and> snd (fetch sample_runtime sample_backend
       (post (JObj [(''type'', JStr ''call_tool''),
                    (''params'', JObj [(''tool'', JStr ''slack_get_user_profile''),
                                       (''parameters'', JObj [(''user_id'', JStr ''U1'')])])]))
       sample_env)
     = [GET ''https://slack.com/api/users.profile.get''
           [(''user'', ''U1''), (''include_labels'', ''true'')]
           [(''Authorization'', ''Bearer xoxb-1''), (''Content-Type'', ''application/json'')]]"
  by (simp add: fetch_def post_def sample_env_def env_var_def isNotification_def isCallTool_def
      invalid_format_response_def json_response_def handleCallTool_def callToolRequest_name_def
      callToolRequest_arguments_def js_or_def or_default_def executeTool_def callTool_def
      tool_content_def getUserProfile_def js_String_def slack_fetch_def sample_backend_def
      worker_SlackClient_def new_SlackClient_def)

theorem call_tool_with_numeric_method_is_rejected_witness:
  "status (fst (fetch sample_runtime sample_backend
       (post (JObj [(''type'', JStr ''call_tool''), (''method'', JNum (Fin 5)),
                    (''params'', JObj [(''tool'', JStr ''slack_get_user_profile''),
                                       (''parameters'', JObj [(''user_id'', JStr ''U1'')])])]))
       sample_env)) = 400"
  using call_tool_with_numeric_method_is_rejected by simp

section \<open>The initialize handshake\<close>

lemma stringify_initialize_result:
  \<open>JSON_stringify rt
     (JObj [(''protocolVersion'', JStr ''2024-11-05''),
            (''serverInfo'', JObj [(''name'', JStr ''slack-mcp-remote''),
                                   (''version'', JStr ''1.0.0'')]),
            (''capabilities'', JObj [(''tools'', JObj [])])])
   = ''{"protocolVersion":"2024-11-05","serverInfo":{"name":"slack-mcp-remote","version":"1.0.0"},"capabilities":{"tools":{}}}''\<close>
  by (simp add: quote_def escape_char_def backslash_def)

text \<open>
  C6, as amended. With the environment configured, the response to an initialize request
  (\<open>method\<close> \<open>initialize\<close>, and neither a tool call nor a tool listing, which come first) has
  status 200, makes no backend call, and its text is the fixed capability object with,
  between \<open>jsonrpc\<close> and \<open>result\<close>, the member \<open>id\<close> holding the text that \<open>JSON.stringify\<close>
  writes for the request's \<open>id\<close>; when the request has no \<open>id\<close> the text has no member \<open>id\<close>
  (no default 0). So the ids 0 and \<open>null\<close> come back as \<open>0\<close> and \<open>null\<close>; a number that
  \<open>JSON.parse\<close> read as an infinity comes back as \<open>null\<close>.
\<close>

theorem initialize_id_roundtrip:
  assumes "truthy (env_var env ''SLACK_BOT_TOKEN'')" "truthy (env_var env ''SLACK_TEAM_ID'')"
    and "json_body request = Some requestBody"
    and "isInitialize requestBody" "\<not> isCallTool requestBody" "\<not> isListTools requestBody"
  shows \<open>snd (fetch rt be request env) = []
       \<and> status (fst (fetch rt be request env)) = 200
       \<and> wire_body rt (fst (fetch rt be request env)) =
           Some (''{"jsonrpc":"2.0",''
                 @ (case member requestBody ''id'' of
                      None \<Rightarrow> []
                    | Some i \<Rightarrow> ''"id":'' @ JSON_stringify rt i @ '','')
                 @ ''"result":{"protocolVersion":"2024-11-05","serverInfo":{"name":"slack-mcp-remote","version":"1.0.0"},"capabilities":{"tools":{}}}}'')\<close>
proof -
  from assms(4) have m: "member requestBody ''method'' = Some (JStr ''initialize'')"
    by (simp add: isInitialize_def)
  then have nn: "requestBody \<noteq> JNull" by auto
  from m have notif: "isNotification requestBody = Inr False"
    by (simp add: isNotification_def)
  have f: "fetch rt be request env = (initialize_response requestBody, [])"
    using fetch_classified[OF assms(1,2,3) nn notif] assms by simp
  show ?thesis
    unfolding f
    by (cases "member requestBody ''id''")
       (simp_all add: initialize_response_def json_response_def js_object_def wire_body_def
          stringify_initialize_result quote_def escape_char_def backslash_def)
qed

theorem initialize_id_roundtrip_witness:
  \<open>wire_body sample_runtime (fst (fetch sample_runtime sample_backend
       (post (JObj [(''jsonrpc'', JStr ''2.0''), (''method'', JStr ''initialize'')])) sample_env))
   = Some ''{"jsonrpc":"2.0","result":{"protocolVersion":"2024-11-05","serverInfo":{"name":"slack-mcp-remote","version":"1.0.0"},"capabilities":{"tools":{}}}}''
   \<and> wire_body sample_runtime (fst (fetch sample_runtime sample_backend
       (post (JObj [(''id'', JNum (Fin 0)), (''method'', JStr ''initialize'')])) sample_env))
   = Some ''{"jsonrpc":"2.0","id":0,"result":{"protocolVersion":"2024-11-05","serverInfo":{"name":"slack-mcp-remote","version":"1.0.0"},"capabilities":{"tools":{}}}}''
   \<and> wire_body sample_runtime (fst (fetch sample_runtime sample_backend
       (post (JObj [(''id'', JNull), (''method'', JStr ''initialize'')])) sample_env))
   = Some ''{"jsonrpc":"2.0","id":null,"result":{"protocolVersion":"2024-11-05","serverInfo":{"name":"slack-mcp-remote","version":"1.0.0"},"capabilities":{"tools":{}}}}''\<close>
proof -
  have zero: "number_toString sample_runtime (Fin 0) = ''0''"
    by (simp add: number_toString_def show_nat.simps)
  have a: \<open>wire_body sample_runtime (fst (fetch sample_runtime sample_backend
       (post (JObj [(''jsonrpc'', JStr ''2.0''), (''method'', JStr ''initialize'')])) sample_env))
   = Some ''{"jsonrpc":"2.0","result":{"protocolVersion":"2024-11-05","serverInfo":{"name":"slack-mcp-remote","version":"1.0.0"},"capabilities":{"tools":{}}}}''\<close>
    using initialize_id_roundtrip[OF sample_env_configured,
        of "post (JObj [(''jsonrpc'', JStr ''2.0''), (''method'', JStr ''initialize'')])"
           "JObj [(''jsonrpc'', JStr ''2.0''), (''method'', JStr ''initialize'')]"
           sample_runtime sample_backend]
    by (simp add: post_def isInitialize_def isCallTool_def isListTools_def)
  have b: \<open>wire_body sample_runtime (fst (fetch sample_runtime sample_backend
       (post (JObj [(''id'', JNum (Fin 0)), (''method'', JStr ''initialize'')])) sample_env))
   = Some ''{"jsonrpc":"2.0","id":0,"result":{"protocolVersion":"2024-11-05","serverInfo":{"name":"slack-mcp-remote","version":"1.0.0"},"capabilities":{"tools":{}}}}''\<close>
    using initialize_id_roundtrip[OF sample_env_configured,
        of "post (JObj [(''id'', JNum (Fin 0)), (''method'', JStr ''initialize'')])"
           "JObj [(''id'', JNum (Fin 0)), (''method'', JStr ''initialize'')]"
           sample_runtime sample_backend]
    by (simp add: post_def isInitialize_def isCallTool_def isListTools_def zero)
  have c: \<open>wire_body sample_runtime (fst (fetch sample_runtime sample_backend
       (post (JObj [(''id'', JNull), (''method'', JStr ''initialize'')])) sample_env))
   = Some ''{"jsonrpc":"2.0","id":null,"result":{"protocolVersion":"2024-11-05","serverInfo":{"name":"slack-mcp-remote","version":"1.0.0"},"capabilities":{"tools":{}}}}''\<close>
    using initialize_id_roundtrip[OF sample_env_configured,
        of "post (JObj [(''id'', JNull), (''method'', JStr ''initialize'')])"
           "JObj [(''id'', JNull), (''method'', JStr ''initialize'')]"
           sample_runtime sample_backend]
    by (simp add: post_def isInitialize_def isCallTool_def isListTools_def)
  from a b c show ?thesis by simp
qed

text \<open>
  C6 as stated fails: the request text \<open>{"id":1e400,"method":"initialize"}\<close> decodes to the
  \<open>id\<close> \<open>Infinity\<close>, and the response carries \<open>"id":null\<close>, the text it also carries for the
  \<open>id\<close> \<open>null\<close>.
\<close>

theorem infinite_id_counterexample:
  \<open>wire_body sample_runtime (fst (fetch sample_runtime sample_backend
       (post (JObj [(''id'', JNum PosInf), (''method'', JStr ''initialize'')])) sample_env))
   = Some ''{"jsonrpc":"2.0","id":null,"result":{"protocolVersion":"2024-11-05","serverInfo":{"name":"slack-mcp-remote","version":"1.0.0"},"capabilities":{"tools":{}}}}''\<close>
  by (simp add: fetch_def post_def sample_env_def env_var_def isNotification_def isCallTool_def
      isListTools_def isInitialize_def initialize_response_def json_response_def js_object_def
      wire_body_def quote_def escape_char_def backslash_def)

section \<open>The canonical tool call\<close>

text \<open>
  C3, as amended. The tool name is \<open>params.name\<close> when that is truthy, else \<open>params.tool\<close>
  when that is truthy, else the empty string; the arguments are \<open>params.arguments\<close> when
  truthy, else \<open>params.parameters\<close> when truthy, else the empty object. Truthy is
  JavaScript's test: an empty string is falsy, and so a present but empty \<open>name\<close> falls back;
  an empty object is truthy, and so a present but empty \<open>arguments\<close> object wins over
  \<open>parameters\<close>.
\<close>

theorem callToolRequest_priority:
  "(truthy (opt_member (member requestBody ''params'') ''name'') \<longrightarrow>
      Some (callToolRequest_name requestBody) = opt_member (member requestBody ''params'') ''name'')
   \<and> (\<not> truthy (opt_member (member requestBody ''params'') ''name'')
        \<and> truthy (opt_member (member requestBody ''params'') ''tool'') \<longrightarrow>
      Some (callToolRequest_name requestBody) = opt_member (member requestBody ''params'') ''tool'')
   \<and> (\<not> truthy (opt_member (member requestBody ''params'') ''name'')
        \<and> \<not> truthy (opt_member (member requestBody ''params'') ''tool'') \<longrightarrow>
      callToolRequest_name requestBody = JStr [])
   \<and> (truthy (opt_member (member requestBody ''params'') ''arguments'') \<longrightarrow>
      Some (callToolRequest_arguments requestBody)
        = opt_member (member requestBody ''params'') ''arguments'')
   \<and> (\<not> truthy (opt_member (member requestBody ''params'') ''arguments'')
        \<and> truthy (opt_member (member requestBody ''params'') ''parameters'') \<longrightarrow>
      Some (callToolRequest_arguments requestBody)
        = opt_member (member requestBody ''params'') ''parameters'')
   \<and> (\<not> truthy (opt_member (member requestBody ''params'') ''arguments'')
        \<and> \<not> truthy (opt_member (member requestBody ''params'') ''parameters'') \<longrightarrow>
      callToolRequest_arguments requestBody = JObj [])
   \<and> \<not> truthy (Some (JStr [])) \<and> truthy (Some (JObj []))"
  by (auto simp: callToolRequest_name_def callToolRequest_arguments_def js_or_def or_default_def
      split: option.splits)

theorem callToolRequest_priority_witness:
  "callToolRequest_name
     (JObj [(''params'', JObj [(''name'', JStr []), (''tool'', JStr ''slack_get_users'')])])
   = JStr ''slack_get_users''
   \<and> callToolRequest_arguments
       (JObj [(''params'', JObj [(''parameters'', JObj [(''limit'', JNum (Fin 5))])])])
     = JObj [(''limit'', JNum (Fin 5))]"
  using
    callToolRequest_priority[of
      "JObj [(''params'', JObj [(''name'', JStr []), (''tool'', JStr ''slack_get_users'')])]"]
    callToolRequest_priority[of
      "JObj [(''params'', JObj [(''parameters'', JObj [(''limit'', JNum (Fin 5))])])]"]
  by simp

text \<open>
  C3 as stated fails: with \<open>arguments\<close> present but empty and \<open>parameters\<close> carrying the
  values, the claim has the fallback used; the worker keeps the empty \<open>arguments\<close>.
\<close>

theorem empty_arguments_counterexample:
  "callToolRequest_arguments
     (JObj [(''method'', JStr ''tools/call''),
            (''params'', JObj [(''name'', JStr ''slack_post_message''),
                               (''arguments'', JObj []),
                               (''parameters'', JObj [(''channel_id'', JStr ''C1''),
                                                      (''text'', JStr ''hi'')])])])
   = JObj []
   \<and> callToolRequest_arguments
     (JObj [(''method'', JStr ''tools/call''),
            (''params'', JObj [(''name'', JStr ''slack_post_message''),
                               (''arguments'', JObj []),
                               (''parameters'', JObj [(''channel_id'', JStr ''C1''),
                                                      (''text'', JStr ''hi'')])])])
   \<noteq> JObj [(''channel_id'', JStr ''C1''), (''text'', JStr ''hi'')]"
  by (simp add: callToolRequest_arguments_def js_or_def or_default_def)

section \<open>Both request shapes are one tool call\<close>



section \<open>Failures of a tool call\<close>

lemma channel_lookups_failing:
  assumes "\<forall>h c. be h c = Inl e"
  shows "channel_lookups be this ids channels hist =
           (case ids of [] \<Rightarrow> (Inr channels, hist)
            | i # rest \<Rightarrow>
                (Inl e, hist @ [GET ''https://slack.com/api/conversations.info'' [(''channel'', i)]
                                  (botHeaders this)]))"
  using assms by (cases ids) (simp_all add: slack_fetch_def)

lemma slack_fetch_failing:
  "\<forall>h c. be h c = Inl e \<Longrightarrow> slack_fetch be c hist = (Inl e, hist @ [c])"
  by (simp add: slack_fetch_def)

lemma getChannels_failing:
  assumes "\<forall>h c. be h c = Inl e"
  shows "snd (getChannels rt be this l cu genv []) \<noteq> [] \<longrightarrow>
         fst (getChannels rt be this l cu genv []) = Inl e"
  unfolding getChannels_def Let_def
  by (auto simp: slack_fetch_failing[OF assms] channel_lookups_failing[OF assms]
      split: sum.splits list.splits if_splits)

lemma posts_failing:
  assumes "\<forall>h c. be h c = Inl e"
  shows "fst (postMessage rt be this a b []) = Inl e"
    and "fst (postReply rt be this a b c []) = Inl e"
    and "fst (addReaction rt be this a b c []) = Inl e"
  by (simp_all add: postMessage_def postReply_def addReaction_def slack_fetch_failing[OF assms])

lemma gets_failing:
  assumes "\<forall>h c. be h c = Inl e"
  shows "snd (getChannelHistory rt be this a l []) \<noteq> [] \<longrightarrow>
         fst (getChannelHistory rt be this a l []) = Inl e"
    and "snd (getThreadReplies rt be this a b []) \<noteq> [] \<longrightarrow>
         fst (getThreadReplies rt be this a b []) = Inl e"
    and "snd (getUserProfile rt be this a []) \<noteq> [] \<longrightarrow>
         fst (getUserProfile rt be this a []) = Inl e"
  by (simp_all add: getChannelHistory_def getThreadReplies_def getUserProfile_def
      slack_fetch_failing[OF assms] split: sum.splits)

lemma getUsers_failing:
  assumes "\<forall>h c. be h c = Inl e"
  shows "snd (getUsers rt be this l cu []) \<noteq> [] \<longrightarrow>
         fst (getUsers rt be this l cu []) = Inl e"
  unfolding getUsers_def Let_def
  by (simp add: slack_fetch_failing[OF assms] split: sum.splits option.splits)

lemma tool_content_failing:
  "(snd (tool_content rt r) \<noteq> [] \<longrightarrow> fst (tool_content rt r) = Inl e)
   = (snd r \<noteq> [] \<longrightarrow> fst r = Inl e)"
  by (cases r) (auto simp: tool_content_def split: sum.splits)

lemma callTool_failing:
  assumes "\<forall>h c. be h c = Inl e"
  shows "snd (callTool rt be this genv name args []) \<noteq> [] \<longrightarrow>
         fst (callTool rt be this genv name args []) = Inl e"
  unfolding callTool_def
  by (simp add: tool_content_failing getChannels_failing[OF assms] posts_failing[OF assms]
      gets_failing[OF assms] getUsers_failing[OF assms] split: sum.split)

text \<open>
  A backend that throws the same error on every call: a tool execution that reaches the
  backend throws that error.
\<close>

lemma backend_failure_propagates:
  assumes "\<forall>h c. be h c = Inl e"
    and "executeTool rt be this genv name arguments = (r, calls)" "calls \<noteq> []"
  shows "r = Inl e"
proof (cases arguments)
  case None
  with assms(2,3) show ?thesis by (simp add: executeTool_def)
next
  case (Some args)
  with assms(2,3) have "callTool rt be this genv name args [] = (r, calls)"
    by (simp add: executeTool_def split: if_splits)
  with callTool_failing[OF assms(1), of rt this genv name args] assms(3)
  show ?thesis by simp
qed

text \<open>
  C1. With the environment configured, a tool call that reaches the dispatch (the body's
  \<open>method\<close> is absent, falsy or a string, so that the classification itself does not
  throw) and whose execution throws an error with message \<open>msg\<close>, after the backend calls
  \<open>calls\<close>, is answered with status 200 and the body
  \<open>{content: [{type: "text", text: JSON.stringify({error: msg})}]}\<close>. In particular, when
  the backend throws an error with message \<open>msg\<close> on every call, a tool call that reaches
  the backend is answered so. The handler registered with the SDK server returns the same
  content for the same failure.
\<close>

theorem tool_failure_is_caught:
  assumes "truthy (env_var env ''SLACK_BOT_TOKEN'')" "truthy (env_var env ''SLACK_TEAM_ID'')"
    and "json_body request = Some requestBody" "isCallTool requestBody"
    and "isNotification requestBody = Inr notif"
  shows "(executeTool rt be (worker_SlackClient env) None (callToolRequest_name requestBody)
            (Some (callToolRequest_arguments requestBody)) = (Inl (Error msg), calls)
          \<longrightarrow> fetch rt be request env =
               (\<lparr>status = 200, headers = json_headers,
                 body = Some (JObj [(''content'',
                          JArr [JObj [(''type'', JStr ''text''),
                                      (''text'', JStr (JSON_stringify rt
                                                        (JObj [(''error'', JStr msg)])))]])])\<rparr>,
                calls))
       \<and> ((\<forall>h c. be h c = Inl (Error msg)) \<and> snd (fetch rt be request env) \<noteq> []
          \<longrightarrow> fst (fetch rt be request env) =
               \<lparr>status = 200, headers = json_headers,
                body = Some (JObj [(''content'',
                         JArr [JObj [(''type'', JStr ''text''),
                                     (''text'', JStr (JSON_stringify rt
                                                       (JObj [(''error'', JStr msg)])))]])])\<rparr>)
       \<and> (executeTool rt be c (Some env') name arguments = (Inl (Error msg), calls)
          \<longrightarrow> sdkCallToolHandler rt be c env' name arguments =
               (JObj [(''content'',
                  JArr [JObj [(''type'', JStr ''text''),
                              (''text'', JStr (JSON_stringify rt
                                                (JObj [(''error'', JStr msg)])))]])],
                calls))"
proof (intro conjI impI)
  assume "executeTool rt be (worker_SlackClient env) None (callToolRequest_name requestBody)
            (Some (callToolRequest_arguments requestBody)) = (Inl (Error msg), calls)"
  from handleCallTool_failure[OF this] fetch_call_tool[OF assms, of rt be]
  show "fetch rt be request env =
               (\<lparr>status = 200, headers = json_headers,
                 body = Some (JObj [(''content'',
                          JArr [JObj [(''type'', JStr ''text''),
                                      (''text'', JStr (JSON_stringify rt
                                                        (JObj [(''error'', JStr msg)])))]])])\<rparr>,
                calls)"
    by (simp add: json_response_def toolError_def toolResult_def)
next
  assume a: "(\<forall>h c. be h c = Inl (Error msg)) \<and> snd (fetch rt be request env) \<noteq> []"
  obtain r cs where ex: "executeTool rt be (worker_SlackClient env) None
      (callToolRequest_name requestBody) (Some (callToolRequest_arguments requestBody)) = (r, cs)"
    by (cases "executeTool rt be (worker_SlackClient env) None
      (callToolRequest_name requestBody) (Some (callToolRequest_arguments requestBody))")
  have cs: "snd (fetch rt be request env) = cs"
    using ex fetch_call_tool[OF assms, of rt be]
    by (cases r) (simp_all add: handleCallTool_def)
  with a have "cs \<noteq> []" by simp
  from backend_failure_propagates[OF _ ex this] a have "r = Inl (Error msg)" by blast
  with ex handleCallTool_failure[of rt be "worker_SlackClient env" requestBody "Error msg" cs]
    fetch_call_tool[OF assms, of rt be]
  show "fst (fetch rt be request env) =
               \<lparr>status = 200, headers = json_headers,
                body = Some (JObj [(''content'',
                         JArr [JObj [(''type'', JStr ''text''),
                                     (''text'', JStr (JSON_stringify rt
                                                       (JObj [(''error'', JStr msg)])))]])])\<rparr>"
    by (simp add: json_response_def toolError_def toolResult_def)
next
  assume "executeTool rt be c (Some env') name arguments = (Inl (Error msg), calls)"
  then show "sdkCallToolHandler rt be c env' name arguments =
               (JObj [(''content'',
                  JArr [JObj [(''type'', JStr ''text''),
                              (''text'', JStr (JSON_stringify rt
                                                (JObj [(''error'', JStr msg)])))]])],
                calls)"
    by (simp add: sdkCallToolHandler_def toolError_def toolResult_def)
qed

lemma executeTool_backend_failure:
  "executeTool sample_runtime failing_backend (worker_SlackClient sample_env) None
     (JStr ''slack_get_user_profile'') (Some (JObj [(''user_id'', JStr ''U1'')]))
   = (Inl (Error ''fetch failed''),
      [GET ''https://slack.com/api/users.profile.get''
           [(''user'', ''U1''), (''include_labels'', ''true'')]
           [(''Authorization'', ''Bearer xoxb-1''), (''Content-Type'', ''application/json'')]])"
  by (simp add: executeTool_def callTool_def tool_content_def getUserProfile_def js_String_def
      slack_fetch_def failing_backend_def worker_SlackClient_def new_SlackClient_def
      sample_env_def)

theorem tool_failure_is_caught_witness:
  "fetch sample_runtime failing_backend
     (post (JObj [(''method'', JStr ''tools/call''), (''id'', JNum (Fin 3)),
                  (''params'', JObj [(''name'', JStr ''slack_get_user_profile''),
                                     (''arguments'', JObj [(''user_id'', JStr ''U1'')])])]))
     sample_env
   = (\<lparr>status = 200, headers = json_headers,
       body = Some (JObj [(''content'',
                JArr [JObj [(''type'', JStr ''text''),
                            (''text'', JStr (JSON_stringify sample_runtime
                                              (JObj [(''error'', JStr ''fetch failed'')])))]])])\<rparr>,
      [GET ''https://slack.com/api/users.profile.get''
           [(''user'', ''U1''), (''include_labels'', ''true'')]
           [(''Authorization'', ''Bearer xoxb-1''), (''Content-Type'', ''application/json'')]])"
proof -
  let ?b = "JObj [(''method'', JStr ''tools/call''), (''id'', JNum (Fin 3)),
                  (''params'', JObj [(''name'', JStr ''slack_get_user_profile''),
                                     (''arguments'', JObj [(''user_id'', JStr ''U1'')])])]"
  have n: "callToolRequest_name ?b = JStr ''slack_get_user_profile''"
    by (simp add: callToolRequest_name_def js_or_def or_default_def)
  have a: "callToolRequest_arguments ?b = JObj [(''user_id'', JStr ''U1'')]"
    by (simp add: callToolRequest_arguments_def js_or_def or_default_def)
  have ex: "executeTool sample_runtime failing_backend (worker_SlackClient sample_env) None
      (callToolRequest_name ?b) (Some (callToolRequest_arguments ?b))
    = (Inl (Error ''fetch failed''),
      [GET ''https://slack.com/api/users.profile.get''
           [(''user'', ''U1''), (''include_labels'', ''true'')]
           [(''Authorization'', ''Bearer xoxb-1''), (''Content-Type'', ''application/json'')]])"
    unfolding n a by (rule executeTool_backend_failure)
  have j: "json_body (post ?b) = Some ?b" by (simp add: post_def)
  have ct: "isCallTool ?b" by (simp add: isCallTool_def)
  have nt: "isNotification ?b = Inr False" by (simp add: isNotification_def)
  from tool_failure_is_caught[OF sample_env_configured j ct nt,
      where rt = sample_runtime and be = failing_backend and msg = "''fetch failed''"]
    ex
  show ?thesis by blast
qed

text \<open>
  C10. With the environment configured, for a tool call that reaches the dispatch: when
  the execution throws an error with message \<open>msg\<close>, the body is the object with the single
  property \<open>content\<close>, whose one element carries the text \<open>JSON.stringify({error: msg})\<close>; so
  it has no \<open>jsonrpc\<close> and no \<open>id\<close>, whatever the request's \<open>id\<close> is. When the execution
  returns, the body is \<open>{jsonrpc: "2.0", id, result}\<close> with the request's \<open>id\<close>, or 0 when the
  request has none.
\<close>

theorem failed_call_has_no_envelope:
  assumes "truthy (env_var env ''SLACK_BOT_TOKEN'')" "truthy (env_var env ''SLACK_TEAM_ID'')"
    and "json_body request = Some requestBody" "isCallTool requestBody"
    and "isNotification requestBody = Inr notif"
  shows "(executeTool rt be (worker_SlackClient env) None (callToolRequest_name requestBody)
            (Some (callToolRequest_arguments requestBody)) = (Inl (Error msg), calls)
          \<longrightarrow> fetch rt be request env =
                (\<lparr>status = 200, headers = json_headers,
                  body = Some (JObj [(''content'',
                           JArr [JObj [(''type'', JStr ''text''),
                                       (''text'', JStr (JSON_stringify rt
                                                         (JObj [(''error'', JStr msg)])))]])])\<rparr>,
                 calls)
              \<and> opt_member (body (fst (fetch rt be request env))) ''jsonrpc'' = None
              \<and> opt_member (body (fst (fetch rt be request env))) ''id'' = None)
       \<and> (executeTool rt be (worker_SlackClient env) None (callToolRequest_name requestBody)
            (Some (callToolRequest_arguments requestBody)) = (Inr result, calls)
          \<longrightarrow> fetch rt be request env =
               (\<lparr>status = 200, headers = json_headers,
                 body = Some (JObj [(''jsonrpc'', JStr ''2.0''),
                                    (''id'', (case member requestBody ''id'' of
                                                None \<Rightarrow> JNum (Fin 0) | Some i \<Rightarrow> i)),
                                    (''result'', result)])\<rparr>,
                calls))"
proof (intro conjI impI)
  assume ex: "executeTool rt be (worker_SlackClient env) None (callToolRequest_name requestBody)
            (Some (callToolRequest_arguments requestBody)) = (Inl (Error msg), calls)"
  from handleCallTool_failure[OF ex] fetch_call_tool[OF assms, of rt be]
  show f: "fetch rt be request env =
                (\<lparr>status = 200, headers = json_headers,
                  body = Some (JObj [(''content'',
                           JArr [JObj [(''type'', JStr ''text''),
                                       (''text'', JStr (JSON_stringify rt
                                                         (JObj [(''error'', JStr msg)])))]])])\<rparr>,
                 calls)"
    by (simp add: json_response_def toolError_def toolResult_def)
  show "opt_member (body (fst (fetch rt be request env))) ''jsonrpc'' = None"
    by (simp add: f)
  show "opt_member (body (fst (fetch rt be request env))) ''id'' = None"
    by (simp add: f)
next
  assume ex: "executeTool rt be (worker_SlackClient env) None (callToolRequest_name requestBody)
            (Some (callToolRequest_arguments requestBody)) = (Inr result, calls)"
  from handleCallTool_success[OF ex] fetch_call_tool[OF assms, of rt be]
  show "fetch rt be request env =
               (\<lparr>status = 200, headers = json_headers,
                 body = Some (JObj [(''jsonrpc'', JStr ''2.0''),
                                    (''id'', (case member requestBody ''id'' of
                                                None \<Rightarrow> JNum (Fin 0) | Some i \<Rightarrow> i)),
                                    (''result'', result)])\<rparr>,
                calls)"
    by (simp add: json_response_def)
qed

lemma executeTool_unknown_tool:
  "executeTool sample_runtime sample_backend (worker_SlackClient sample_env) None
     (JStr ''slack_bogus_tool'') (Some (JObj []))
   = (Inl (Error ''Unknown tool: slack_bogus_tool''), [])"
  by (simp add: executeTool_def callTool_def js_String_def)

lemma executeTool_user_profile:
  \<open>executeTool sample_runtime sample_backend (worker_SlackClient sample_env) None
     (JStr ''slack_get_user_profile'') (Some (JObj [(''user_id'', JStr ''U1'')]))
   = (Inr (JObj [(''content'',
            JArr [JObj [(''type'', JStr ''text''), (''text'', JStr ''{"ok":true}'')]])]),
      [GET ''https://slack.com/api/users.profile.get''
           [(''user'', ''U1''), (''include_labels'', ''true'')]
           [(''Authorization'', ''Bearer xoxb-1''), (''Content-Type'', ''application/json'')]])\<close>
  by (simp add: executeTool_def callTool_def tool_content_def toolResult_def getUserProfile_def
      js_String_def slack_fetch_def sample_backend_def worker_SlackClient_def new_SlackClient_def
      sample_env_def quote_def escape_char_def backslash_def)

theorem failed_call_has_no_envelope_witness:
  \<open>fetch sample_runtime sample_backend
     (post (JObj [(''method'', JStr ''tools/call''), (''id'', JNum (Fin 41)),
                  (''params'', JObj [(''name'', JStr ''slack_bogus_tool'')])])) sample_env
   = (\<lparr>status = 200, headers = json_headers,
       body = Some (JObj [(''content'',
                JArr [JObj [(''type'', JStr ''text''),
                            (''text'', JStr ''{"error":"Unknown tool: slack_bogus_tool"}'')]])])\<rparr>,
      [])
   \<and> fetch sample_runtime sample_backend
     (post (JObj [(''method'', JStr ''tools/call''), (''id'', JNum (Fin 42)),
                  (''params'', JObj [(''name'', JStr ''slack_bogus_tool'')])])) sample_env
   = (\<lparr>status = 200, headers = json_headers,
       body = Some (JObj [(''content'',
                JArr [JObj [(''type'', JStr ''text''),
                            (''text'', JStr ''{"error":"Unknown tool: slack_bogus_tool"}'')]])])\<rparr>,
      [])
   \<and> body (fst (fetch sample_runtime sample_backend
     (post (JObj [(''method'', JStr ''tools/call''), (''id'', JNum (Fin 42)),
                  (''params'', JObj [(''name'', JStr ''slack_get_user_profile''),
                                     (''arguments'', JObj [(''user_id'', JStr ''U1'')])])]))
     sample_env))
   = Some (JObj [(''jsonrpc'', JStr ''2.0''), (''id'', JNum (Fin 42)),
                 (''result'', JObj [(''content'',
                    JArr [JObj [(''type'', JStr ''text''),
                                (''text'', JStr ''{"ok":true}'')]])])])\<close>
proof -
  let ?b1 = "JObj [(''method'', JStr ''tools/call''), (''id'', JNum (Fin 41)),
                   (''params'', JObj [(''name'', JStr ''slack_bogus_tool'')])]"
  let ?b2 = "JObj [(''method'', JStr ''tools/call''), (''id'', JNum (Fin 42)),
                   (''params'', JObj [(''name'', JStr ''slack_bogus_tool'')])]"
  let ?b3 = "JObj [(''method'', JStr ''tools/call''), (''id'', JNum (Fin 42)),
                  (''params'', JObj [(''name'', JStr ''slack_get_user_profile''),
                                     (''arguments'', JObj [(''user_id'', JStr ''U1'')])])]"
  have n: "callToolRequest_name ?b1 = JStr ''slack_bogus_tool''"
    "callToolRequest_name ?b2 = JStr ''slack_bogus_tool''"
    "callToolRequest_name ?b3 = JStr ''slack_get_user_profile''"
    by (simp_all add: callToolRequest_name_def js_or_def or_default_def)
  have a: "callToolRequest_arguments ?b1 = JObj []" "callToolRequest_arguments ?b2 = JObj []"
    "callToolRequest_arguments ?b3 = JObj [(''user_id'', JStr ''U1'')]"
    by (simp_all add: callToolRequest_arguments_def js_or_def or_default_def)
  have j: "json_body (post ?b1) = Some ?b1" "json_body (post ?b2) = Some ?b2"
    "json_body (post ?b3) = Some ?b3"
    by (simp_all add: post_def)
  have ct: "isCallTool ?b1" "isCallTool ?b2" "isCallTool ?b3" by (simp_all add: isCallTool_def)
  have nt: "isNotification ?b1 = Inr False" "isNotification ?b2 = Inr False"
    "isNotification ?b3 = Inr False"
    by (simp_all add: isNotification_def)
  have 1: \<open>fetch sample_runtime sample_backend (post ?b1) sample_env
      = (\<lparr>status = 200, headers = json_headers,
       body = Some (JObj [(''content'',
                JArr [JObj [(''type'', JStr ''text''),
                            (''text'', JStr ''{"error":"Unknown tool: slack_bogus_tool"}'')]])])\<rparr>,
      [])\<close>
    using failed_call_has_no_envelope[OF sample_env_configured j(1) ct(1) nt(1),
        where rt = sample_runtime and be = sample_backend
          and msg = "''Unknown tool: slack_bogus_tool''" and calls = "[]"]
      executeTool_unknown_tool
    by (simp add: n a quote_def escape_char_def backslash_def)
  have 2: \<open>fetch sample_runtime sample_backend (post ?b2) sample_env
      = (\<lparr>status = 200, headers = json_headers,
       body = Some (JObj [(''content'',
                JArr [JObj [(''type'', JStr ''text''),
                            (''text'', JStr ''{"error":"Unknown tool: slack_bogus_tool"}'')]])])\<rparr>,
      [])\<close>
    using failed_call_has_no_envelope[OF sample_env_configured j(2) ct(2) nt(2),
        where rt = sample_runtime and be = sample_backend
          and msg = "''Unknown tool: slack_bogus_tool''" and calls = "[]"]
      executeTool_unknown_tool
    by (simp add: n a quote_def escape_char_def backslash_def)
  have 3: \<open>body (fst (fetch sample_runtime sample_backend (post ?b3) sample_env))
      = Some (JObj [(''jsonrpc'', JStr ''2.0''), (''id'', JNum (Fin 42)),
                 (''result'', JObj [(''content'',
                    JArr [JObj [(''type'', JStr ''text''),
                                (''text'', JStr ''{"ok":true}'')]])])])\<close>
    using failed_call_has_no_envelope[OF sample_env_configured j(3) ct(3) nt(3),
        where rt = sample_runtime and be = sample_backend
          and calls = "[GET ''https://slack.com/api/users.profile.get''
               [(''user'', ''U1''), (''include_labels'', ''true'')]
               [(''Authorization'', ''Bearer xoxb-1''), (''Content-Type'', ''application/json'')]]"
          and result = "JObj [(''content'',
                    JArr [JObj [(''type'', JStr ''text''), (''text'', JStr ''{\"ok\":true}'')]])]"]
      executeTool_user_profile
    by (simp add: n a)
  from 1 2 3 show ?thesis by blast
qed

section \<open>Required arguments\<close>








section \<open>The limit of the paginated listings\<close>

lemma number_toString_200: "number_toString rt (Fin 200) = ''200''"
  by (simp add: number_toString_def show_nat.simps)

lemma Math_min_above_200:
  assumes "n = PosInf \<or> (\<exists>r. n = Fin r \<and> 200 < r)"
  shows "Math_min rt (JNum n) (Fin 200) = Inr (Fin 200)"
  using assms by (auto simp: Math_min_def js_Number_def)

lemma channel_lookups_no_limit:
  "\<forall>c \<in> set hist. sent_limit c = None \<Longrightarrow>
   \<forall>c \<in> set (snd (channel_lookups be this ids channels hist)). sent_limit c = None"
proof (induction ids arbitrary: channels hist)
  case Nil
  then show ?case by simp
next
  case (Cons channelId rest)
  let ?call = "GET ''https://slack.com/api/conversations.info'' [(''channel'', channelId)]
                 (botHeaders this)"
  have hist': "\<forall>c \<in> set (hist @ [?call]). sent_limit c = None"
    using Cons.prems by (simp add: sent_limit_def)
  note ih = Cons.IH[OF hist']
  show ?case
  proof (cases "be hist ?call")
    case (Inl e)
    then show ?thesis using hist' by (simp add: slack_fetch_def)
  next
    case (Inr data)
    then show ?thesis
      using ih hist'
      by (cases data) (simp_all add: slack_fetch_def split: option.splits)
  qed
qed

text \<open>
  C7. When \<open>limit\<close> is a number greater than 200 (\<open>Infinity\<close> included): every call that
  \<open>getChannels\<close> makes on its listing path (no pre-defined channel identifiers) and every
  call that \<open>getUsers\<close> makes carries the limit 200, and each makes exactly one call when no
  cursor is given (\<open>getUsers\<close>: where the runtime defines \<open>process.env\<close>). On any path, no
  call of \<open>getChannels\<close> carries another limit than 200.
\<close>

theorem limit_above_200_is_clamped:
  assumes "n = PosInf \<or> (\<exists>r. n = Fin r \<and> 200 < r)"
  shows "((case env of None \<Rightarrow> True
           | Some e \<Rightarrow> map_of e ''SLACK_CHANNEL_IDS'' = None
                       \<or> map_of e ''SLACK_CHANNEL_IDS'' = Some []) \<longrightarrow>
            (\<forall>c \<in> set (snd (getChannels rt be this (Some (JNum n)) cursor env [])).
               sent_limit c = Some ''200'')
            \<and> (\<not> truthy cursor \<longrightarrow>
                 length (snd (getChannels rt be this (Some (JNum n)) cursor env [])) = 1))
       \<and> (\<forall>c \<in> set (snd (getChannels rt be this (Some (JNum n)) cursor env [])).
             sent_limit c = None \<or> sent_limit c = Some ''200'')
       \<and> (\<forall>c \<in> set (snd (getUsers rt be this (Some (JNum n)) cursor [])).
             sent_limit c = Some ''200'')
       \<and> (\<not> truthy cursor \<and> process_env rt \<noteq> None \<longrightarrow>
             length (snd (getUsers rt be this (Some (JNum n)) cursor [])) = 1)"
proof -
  note mm = Math_min_above_200[OF assms, of rt]
  have listing: "(\<forall>c \<in> set (snd (getChannels rt be this (Some (JNum n)) cursor env [])).
               sent_limit c = Some ''200'')
            \<and> (\<not> truthy cursor \<longrightarrow>
                 length (snd (getChannels rt be this (Some (JNum n)) cursor env [])) = 1)"
    if "(case env of None \<Rightarrow> [] | Some e \<Rightarrow>
           (case map_of e ''SLACK_CHANNEL_IDS'' of None \<Rightarrow> [] | Some s \<Rightarrow> s)) = []"
    using that
    by (simp add: getChannels_def Let_def mm number_toString_200 slack_fetch_def sent_limit_def
        split: sum.splits)
  have lookups: "\<forall>c \<in> set (snd (getChannels rt be this (Some (JNum n)) cursor env [])).
             sent_limit c = None"
    if "(case env of None \<Rightarrow> [] | Some e \<Rightarrow>
           (case map_of e ''SLACK_CHANNEL_IDS'' of None \<Rightarrow> [] | Some s \<Rightarrow> s)) \<noteq> []"
  proof -
    obtain ids where ids: "(case env of None \<Rightarrow> [] | Some e \<Rightarrow>
           (case map_of e ''SLACK_CHANNEL_IDS'' of None \<Rightarrow> [] | Some s \<Rightarrow> s)) = ids"
      by simp
    have "\<forall>c \<in> set (snd (channel_lookups be this (map trim (split CHR '','' ids)) [] [])).
            sent_limit c = None"
      by (rule channel_lookups_no_limit) simp
    then show ?thesis
      using that ids
      by (cases "channel_lookups be this (map trim (split CHR '','' ids)) [] []")
         (simp add: getChannels_def Let_def split: sum.splits)
  qed
  have users: "(\<forall>c \<in> set (snd (getUsers rt be this (Some (JNum n)) cursor [])).
             sent_limit c = Some ''200'')
       \<and> (\<not> truthy cursor \<and> process_env rt \<noteq> None \<longrightarrow>
             length (snd (getUsers rt be this (Some (JNum n)) cursor [])) = 1)"
    by (auto simp: getUsers_def Let_def mm number_toString_200 slack_fetch_def sent_limit_def
        split: sum.splits option.splits)
  show ?thesis
  proof (cases "(case env of None \<Rightarrow> [] | Some e \<Rightarrow>
           (case map_of e ''SLACK_CHANNEL_IDS'' of None \<Rightarrow> [] | Some s \<Rightarrow> s)) = []")
    case True
    from listing[OF True] users show ?thesis by auto
  next
    case False
    then have "\<not> (case env of None \<Rightarrow> True
           | Some e \<Rightarrow> map_of e ''SLACK_CHANNEL_IDS'' = None
                       \<or> map_of e ''SLACK_CHANNEL_IDS'' = Some [])"
      by (auto split: option.splits)
    with lookups[OF False] users show ?thesis by auto
  qed
qed

lemma singleton_map:
  assumes "\<forall>c \<in> set xs. f c = v" "length xs = 1"
  shows "map f xs = [v]"
proof -
  from assms(2) obtain x where "xs = [x]"
    by (cases xs) simp_all
  with assms(1) show ?thesis by simp
qed

theorem limit_above_200_is_clamped_witness:
  "map sent_limit
     (snd (getChannels sample_runtime sample_backend (worker_SlackClient sample_env)
             (Some (JNum (Fin 500))) None None []))
   = [Some ''200'']
   \<and> map sent_limit
       (snd (getUsers sample_runtime sample_backend (worker_SlackClient sample_env)
               (Some (JNum (Fin 500))) None []))
     = [Some ''200'']
   \<and> snd (fetch sample_runtime sample_backend
            (post (JObj [(''method'', JStr ''tools/call''),
                         (''params'', JObj [(''name'', JStr ''slack_list_channels''),
                                            (''arguments'', JObj [(''limit'', JNum (Fin 500))])])]))
            sample_env)
     = [GET ''https://slack.com/api/conversations.list''
          [(''types'', ''public_channel''), (''exclude_archived'', ''true''),
           (''limit'', ''200''), (''team_id'', [])]
          [(''Authorization'', ''Bearer xoxb-1''), (''Content-Type'', ''application/json'')]]"
proof -
  have big: "(Fin 500 :: jsnum) = PosInf \<or> (\<exists>r. Fin 500 = Fin r \<and> 200 < r)"
    by simp
  note general = limit_above_200_is_clamped[OF big,
      of None sample_runtime sample_backend "worker_SlackClient sample_env" None]
  have pe: "process_env sample_runtime \<noteq> None" by (simp add: sample_runtime_def)
  have a: "map sent_limit
     (snd (getChannels sample_runtime sample_backend (worker_SlackClient sample_env)
             (Some (JNum (Fin 500))) None None []))
   = [Some ''200'']"
    using general by (intro singleton_map) simp_all
  have b: "map sent_limit
       (snd (getUsers sample_runtime sample_backend (worker_SlackClient sample_env)
               (Some (JNum (Fin 500))) None []))
     = [Some ''200'']"
    using general pe by (intro singleton_map) simp_all
  have c: "snd (fetch sample_runtime sample_backend
            (post (JObj [(''method'', JStr ''tools/call''),
                         (''params'', JObj [(''name'', JStr ''slack_list_channels''),
                                            (''arguments'', JObj [(''limit'', JNum (Fin 500))])])]))
            sample_env)
     = [GET ''https://slack.com/api/conversations.list''
          [(''types'', ''public_channel''), (''exclude_archived'', ''true''),
           (''limit'', ''200''), (''team_id'', [])]
          [(''Authorization'', ''Bearer xoxb-1''), (''Content-Type'', ''application/json'')]]"
    by (simp add: fetch_def post_def sample_env_def env_var_def isNotification_def isCallTool_def
        handleCallTool_def callToolRequest_name_def callToolRequest_arguments_def js_or_def
        or_default_def executeTool_def callTool_def tool_content_def getChannels_def
        Math_min_def js_Number_def number_toString_200 slack_fetch_def sample_backend_def
        worker_SlackClient_def new_SlackClient_def)
  from a b c show ?thesis by simp
qed

section \<open>Where the worker departs from its specification\<close>

text \<open>
  C8 fails on the code. The \<open>OPTIONS\<close> branch comes after \<open>JSON.parse\<close> and after the four
  classification branches: a preflight request, which has no body, is answered with
  status 400 and \<open>Invalid JSON in request\<close>, and an \<open>OPTIONS\<close> request whose body is a tool
  call is dispatched to the backend.
\<close>

theorem options_is_not_short_circuited:
  "fetch sample_runtime sample_backend \<lparr>http_method = ''OPTIONS'', json_body = None\<rparr> sample_env
   = (\<lparr>status = 400, headers = json_headers,
       body = Some (JObj [(''error'', JStr ''Invalid JSON in request'')])\<rparr>, [])
   \<and> snd (fetch sample_runtime sample_backend
        \<lparr>http_method = ''OPTIONS'',
         json_body = Some (JObj [(''method'', JStr ''tools/call''),
                                 (''params'', JObj [(''name'', JStr ''slack_get_user_profile''),
                                                    (''arguments'', JObj [(''user_id'', JStr ''U1'')])])])\<rparr>
        sample_env)
     = [GET ''https://slack.com/api/users.profile.get''
           [(''user'', ''U1''), (''include_labels'', ''true'')]
           [(''Authorization'', ''Bearer xoxb-1''), (''Content-Type'', ''application/json'')]]"
  by (simp add: fetch_def sample_env_def env_var_def invalid_json_response_def json_response_def
      isNotification_def isCallTool_def handleCallTool_def callToolRequest_name_def
      callToolRequest_arguments_def js_or_def or_default_def executeTool_def callTool_def
      tool_content_def getUserProfile_def js_String_def slack_fetch_def sample_backend_def
      worker_SlackClient_def new_SlackClient_def)

theorem options_is_not_short_circuited_witness:
  "status (fst (fetch sample_runtime sample_backend
     \<lparr>http_method = ''OPTIONS'', json_body = None\<rparr> sample_env)) = 400"
  using options_is_not_short_circuited by simp

text \<open>
  What \<open>getChannels\<close> does when it is given an \<open>env\<close> with channel identifiers and every
  lookup is answered: one \<open>conversations.info\<close> call per identifier, in their order.
\<close>

lemma channel_lookups_calls:
  assumes "\<forall>h c. \<exists>d. be h c = Inr d \<and> d \<noteq> JNull"
  shows "snd (channel_lookups be this ids channels hist) =
           hist @ map (\<lambda>i. GET ''https://slack.com/api/conversations.info'' [(''channel'', i)]
                              (botHeaders this)) ids"
proof (induction ids arbitrary: channels hist)
  case Nil
  show ?case by simp
next
  case (Cons channelId rest)
  let ?call = "GET ''https://slack.com/api/conversations.info'' [(''channel'', channelId)]
                 (botHeaders this)"
  from assms obtain d where d: "be hist ?call = Inr d" "d \<noteq> JNull" by blast
  then show ?case
    by (cases d) (simp_all add: slack_fetch_def Cons.IH split: option.splits)
qed

lemma getChannels_configured_calls:
  assumes "\<forall>h c. \<exists>d. be h c = Inr d \<and> d \<noteq> JNull"
    and "map_of env ''SLACK_CHANNEL_IDS'' = Some ids" "ids \<noteq> []"
  shows "snd (getChannels rt be this limit cursor (Some env) []) =
           map (\<lambda>i. GET ''https://slack.com/api/conversations.info'' [(''channel'', i)]
                       (botHeaders this))
               (map trim (split CHR '','' ids))"
  using assms(2,3) channel_lookups_calls[OF assms(1), of this "map trim (split CHR '','' ids)" "[]" "[]"]
  by (cases "channel_lookups be this (map trim (split CHR '','' ids)) [] []")
     (simp add: getChannels_def split: sum.splits)

text \<open>
  C9 fails on the code. \<open>fetch\<close> calls \<open>getChannels\<close> without \<open>env\<close>, so with the channel
  identifiers \<open>C1, C2\<close> configured it still makes the one paginated listing call (with an
  empty \<open>team_id\<close>); the handler registered with the SDK server, which passes \<open>env\<close>, makes
  the two per-channel lookups.
\<close>

theorem list_channels_ignores_configured_ids:
  "snd (fetch sample_runtime sample_backend
          (post (JObj [(''method'', JStr ''tools/call''),
                       (''params'', JObj [(''name'', JStr ''slack_list_channels''),
                                          (''arguments'', JObj [])])]))
          sample_env_with_channels)
   = [GET ''https://slack.com/api/conversations.list''
        [(''types'', ''public_channel''), (''exclude_archived'', ''true''),
         (''limit'', ''100''), (''team_id'', [])]
        [(''Authorization'', ''Bearer xoxb-1''), (''Content-Type'', ''application/json'')]]
   \<and> snd (sdkCallToolHandler sample_runtime sample_backend
            (worker_SlackClient sample_env_with_channels) sample_env_with_channels
            (JStr ''slack_list_channels'') (Some (JObj [])))
     = [GET ''https://slack.com/api/conversations.info'' [(''channel'', ''C1'')]
          [(''Authorization'', ''Bearer xoxb-1''), (''Content-Type'', ''application/json'')],
        GET ''https://slack.com/api/conversations.info'' [(''channel'', ''C2'')]
          [(''Authorization'', ''Bearer xoxb-1''), (''Content-Type'', ''application/json'')]]"
proof -
  have hundred: "number_toString sample_runtime (Fin 100) = ''100''"
    by (simp add: number_toString_def show_nat.simps)
  have a: "snd (fetch sample_runtime sample_backend
          (post (JObj [(''method'', JStr ''tools/call''),
                       (''params'', JObj [(''name'', JStr ''slack_list_channels''),
                                          (''arguments'', JObj [])])]))
          sample_env_with_channels)
   = [GET ''https://slack.com/api/conversations.list''
        [(''types'', ''public_channel''), (''exclude_archived'', ''true''),
         (''limit'', ''100''), (''team_id'', [])]
        [(''Authorization'', ''Bearer xoxb-1''), (''Content-Type'', ''application/json'')]]"
    by (simp add: fetch_def post_def sample_env_with_channels_def env_var_def isNotification_def
        isCallTool_def handleCallTool_def callToolRequest_name_def callToolRequest_arguments_def
        js_or_def or_default_def executeTool_def callTool_def tool_content_def getChannels_def
        Math_min_def js_Number_def hundred slack_fetch_def sample_backend_def
        worker_SlackClient_def new_SlackClient_def)
  have b: "snd (sdkCallToolHandler sample_runtime sample_backend
            (worker_SlackClient sample_env_with_channels) sample_env_with_channels
            (JStr ''slack_list_channels'') (Some (JObj [])))
     = [GET ''https://slack.com/api/conversations.info'' [(''channel'', ''C1'')]
          [(''Authorization'', ''Bearer xoxb-1''), (''Content-Type'', ''application/json'')],
        GET ''https://slack.com/api/conversations.info'' [(''channel'', ''C2'')]
          [(''Authorization'', ''Bearer xoxb-1''), (''Content-Type'', ''application/json'')]]"
    by (simp add: sdkCallToolHandler_def executeTool_def callTool_def tool_content_def
        getChannels_def sample_env_with_channels_def trim_def strip_leading.simps white_space_def
        slack_fetch_def sample_backend_def
        worker_SlackClient_def new_SlackClient_def)
  from a b show ?thesis by simp
qed

theorem list_channels_ignores_configured_ids_witness:
  "length (snd (fetch sample_runtime sample_backend
          (post (JObj [(''method'', JStr ''tools/call''),
                       (''params'', JObj [(''name'', JStr ''slack_list_channels''),
                                          (''arguments'', JObj [])])]))
          sample_env_with_channels)) = 1"
  using list_channels_ignores_configured_ids by simp

end
